theory Spec2Isabelle
  imports Complex_Main "HOL-Library.Multiset"
begin

section \<open>Momentum contrast (model/model.py) and linear evaluation (linear.py)\<close>

text \<open>
  The development embeds the momentum-contrast core of \<^verbatim>\<open>model/model.py\<close> (classes
  \<^verbatim>\<open>MoCov1\<close> and \<^verbatim>\<open>MoCov2\<close>) and the construction and call protocol of
  \<^verbatim>\<open>linear.py\<close>.

  Conventions of the embedding.
  \<^item> A Python exception is a value of \<open>error\<close>. A method that mutates \<^verbatim>\<open>self\<close> returns
    the pair of its outcome and the object afterwards, so that the state an exception
    leaves behind is part of the model.
  \<^item> A 2-D tensor of shape \<open>(N, C)\<close> is the list of its \<open>N\<close> rows, each of length \<open>C\<close>.
    A parameter tensor is the list of its entries (its shape flattened).
  \<^item> \<^verbatim>\<open>self.K\<close>, batch sizes and the queue pointer are natural numbers: the queue is
    allocated by \<^verbatim>\<open>torch.randn(feature_dim, K)\<close>, which rejects a negative size, the
    pointer starts at 0 and is only ever assigned a remainder modulo \<^verbatim>\<open>self.K\<close>.
  \<^item> The two encoders are opaque networks: a forward pass is a function of the
    encoder's parameter list and of the batch.
  \<^item> Random draws (\<^verbatim>\<open>torch.randperm\<close>, \<^verbatim>\<open>torch.randn\<close>, fresh network weights) are
    arguments of the model.
  \<^item> Device placement (\<^verbatim>\<open>.cuda()\<close>) is not modelled; of automatic differentiation,
    only the \<^verbatim>\<open>requires_grad\<close> flag of a parameter is.
  \<^item> Where two tensors of different shapes meet, the model reports
    \<open>RuntimeError\<close>; the size-1 broadcasting of torch is modelled only for the slice
    assignment of the queue.
\<close>

datatype error =
    AssertionError | ZeroDivisionError | RuntimeError | IndexError | TypeError
  | AttributeError | FileNotFoundError | ValueError

type_synonym ('r, 's) res = "(error + 'r) \<times> 's"

subsection \<open>Data model\<close>

text \<open>A parameter of a network (\<^verbatim>\<open>torch.nn.Parameter\<close>): its entries and its
  \<^verbatim>\<open>requires_grad\<close> flag.\<close>

record 'a param =
  data :: "'a list"
  requires_grad :: bool

text \<open>The attributes of a \<^verbatim>\<open>MoCov1\<close> (lines 58-74) or \<^verbatim>\<open>MoCov2\<close> (lines 190-206)
  object. \<open>queue\<close> has shape \<open>(feature_dim, K)\<close>: one row per embedding coordinate, one
  column per stored key.\<close>

record 'a moco =
  self_K :: nat
  self_m :: 'a
  self_T :: 'a
  encoder_q :: "'a param list"
  encoder_k :: "'a param list"
  queue :: "'a list list"
  queue_ptr :: nat

subsection \<open>Tensor operations\<close>

definition tensor_mul :: "'a::times list \<Rightarrow> 'a \<Rightarrow> 'a list" where
  "tensor_mul t c = map (\<lambda>x. x * c) t"

definition tensor_add :: "'a::plus list \<Rightarrow> 'a list \<Rightarrow> error + 'a list" where
  "tensor_add a b =
     (if length a = length b then Inr (map2 (\<lambda>x y. x + y) a b) else Inl RuntimeError)"

subsection \<open>MoCov1: momentum update (lines 76-80)\<close>

text \<open>The loop over \<^verbatim>\<open>zip(self.encoder_q.parameters(), self.encoder_k.parameters())\<close>:
  it stops with the shorter list, rebinds \<^verbatim>\<open>param_k.data\<close> pair by pair, and an exception
  leaves the pairs before it updated.\<close>

fun momentum_loop ::
  "'a::{times,plus,minus,one} \<Rightarrow> 'a param list \<Rightarrow> 'a param list \<Rightarrow> (unit, 'a param list) res"
where
  "momentum_loop mm (param_q # qs) (param_k # ks) =
     (case tensor_add (tensor_mul (data param_k) mm) (tensor_mul (data param_q) (1 - mm)) of
        Inl e \<Rightarrow> (Inl e, param_k # ks)
      | Inr d \<Rightarrow>
          (case momentum_loop mm qs ks of
             (r, ks') \<Rightarrow> (r, param_k\<lparr>data := d\<rparr> # ks')))"
| "momentum_loop mm [] ks = (Inr (), ks)"
| "momentum_loop mm qs [] = (Inr (), [])"

definition MoCov1_momentum_update_key_encoder ::
  "'a::{times,plus,minus,one} moco \<Rightarrow> (unit, 'a moco) res"
where
  "MoCov1_momentum_update_key_encoder s =
     (case momentum_loop (self_m s) (encoder_q s) (encoder_k s) of
        (r, ks) \<Rightarrow> (r, s\<lparr>encoder_k := ks\<rparr>))"

text \<open>The rule in the words of the specification: \<open>K*m + Q*(1-m)\<close>, entry by entry.\<close>

definition ema :: "'a::{times,plus,minus,one} \<Rightarrow> 'a list \<Rightarrow> 'a list \<Rightarrow> 'a list" where
  "ema mm kd qd = map2 (\<lambda>k q. k * mm + q * (1 - mm)) kd qd"

definition same_shapes :: "'a param list \<Rightarrow> 'a param list \<Rightarrow> bool" where
  "same_shapes qs ks = list_all2 (\<lambda>q k. length (data q) = length (data k)) qs ks"

subsection \<open>MoCov1: the key queue (lines 82-93)\<close>

text \<open>Column \<open>j\<close> of a tensor given by its rows.\<close>

definition col :: "'a list list \<Rightarrow> nat \<Rightarrow> 'a list" where
  "col x j = map (\<lambda>row. row ! j) x"

text \<open>\<^verbatim>\<open>keys.t()\<close>, for a batch of at least one row (the only use, see below).\<close>

definition tensor_t :: "'a list list \<Rightarrow> 'a list list" where
  "tensor_t x = (case x of [] \<Rightarrow> [] | r # _ \<Rightarrow> map (\<lambda>c. col x c) [0..<length r])"

text \<open>\<^verbatim>\<open>x[:, start:stop] = v\<close> on a tensor \<open>x\<close> with \<open>ncols\<close> columns, for a value \<open>v\<close> with
  \<open>vcols\<close> columns. Python clamps the bounds of a slice to the tensor, so the slice may
  be narrower than \<open>stop - start\<close>; torch then broadcasts \<open>v\<close> to the shape of the slice
  (a dimension of \<open>v\<close> must equal that of the slice or be 1) and raises RuntimeError
  when it cannot.\<close>

definition setitem_cols ::
  "'a list list \<Rightarrow> nat \<Rightarrow> nat \<Rightarrow> nat \<Rightarrow> nat \<Rightarrow> 'a list list \<Rightarrow> error + 'a list list"
where
  "setitem_cols x ncols start stop vcols v =
     (let lo = min start ncols; hi = max lo (min stop ncols); w = hi - lo in
      if (length v = length x \<or> length v = 1) \<and> (vcols = w \<or> vcols = 1)
      then Inr (map (\<lambda>c. take lo (x ! c)
                         @ map (\<lambda>j. v ! (if length v = 1 then 0 else c)
                                      ! (if vcols = 1 then 0 else j)) [0..<w]
                         @ drop hi (x ! c))
                    [0..<length x])
      else Inl RuntimeError)"

text \<open>\<^verbatim>\<open>_dequeue_and_enqueue(self, keys)\<close>. \<^verbatim>\<open>self.K % batch_size\<close> raises
  ZeroDivisionError for an empty batch, before the assertion is evaluated; so does
  \<^verbatim>\<open>(ptr + batch_size) % self.K\<close> for \<^verbatim>\<open>self.K = 0\<close>, after the slice was written.\<close>

definition MoCov1_dequeue_and_enqueue :: "'a moco \<Rightarrow> 'a list list \<Rightarrow> (unit, 'a moco) res" where
  "MoCov1_dequeue_and_enqueue s keys =
     (let batch_size = length keys;
          ptr = queue_ptr s in
      if batch_size = 0 then (Inl ZeroDivisionError, s)
      else if self_K s mod batch_size \<noteq> 0 then (Inl AssertionError, s)
      else
        (case setitem_cols (queue s) (self_K s) ptr (ptr + batch_size) batch_size (tensor_t keys) of
           Inl e \<Rightarrow> (Inl e, s)
         | Inr x \<Rightarrow>
             (let s1 = s\<lparr>queue := x\<rparr> in
              if self_K s = 0 then (Inl ZeroDivisionError, s1)
              else (Inr (), s1\<lparr>queue_ptr := (ptr + batch_size) mod self_K s\<rparr>))))"

text \<open>A run of enqueues, stopping at the first exception.\<close>

fun enqueue_all :: "'a moco \<Rightarrow> 'a list list list \<Rightarrow> (unit, 'a moco) res" where
  "enqueue_all s [] = (Inr (), s)"
| "enqueue_all s (keys # rest) =
     (case MoCov1_dequeue_and_enqueue s keys of
        (Inl e, s') \<Rightarrow> (Inl e, s')
      | (Inr _, s') \<Rightarrow> enqueue_all s' rest)"

text \<open>The stored keys, oldest first: the columns of the queue read circularly from the
  pointer (the next column to be overwritten holds the oldest key).\<close>

definition cols :: "nat \<Rightarrow> 'a list list \<Rightarrow> 'a list list" where
  "cols ncols x = map (col x) [0..<ncols]"

definition queue_view :: "'a moco \<Rightarrow> 'a list list" where
  "queue_view s = rotate (queue_ptr s) (cols (self_K s) (queue s))"

text \<open>\<open>is_tensor n c x\<close>: \<open>x\<close> has shape \<open>(n, c)\<close>.\<close>

definition is_tensor :: "nat \<Rightarrow> nat \<Rightarrow> 'a list list \<Rightarrow> bool" where
  "is_tensor n c x = (length x = n \<and> list_all (\<lambda>row. length row = c) x)"

subsection \<open>MoCov1: batch shuffle (lines 95-108)\<close>

text \<open>\<^verbatim>\<open>x[idx]\<close> along the batch axis, for an index tensor of non-negative entries.\<close>

definition index_select :: "'a list \<Rightarrow> nat list \<Rightarrow> error + 'a list" where
  "index_select x idx =
     (if list_all (\<lambda>i. i < length x) idx then Inr (map (\<lambda>i. x ! i) idx) else Inl IndexError)"

text \<open>\<^verbatim>\<open>torch.argsort\<close>: the positions of the entries in ascending order of the entries
  (here with equal entries in their original order; on the distinct entries of a
  permutation every argsort agrees).\<close>

definition argsort :: "nat list \<Rightarrow> nat list" where
  "argsort xs = sort_key (\<lambda>i. xs ! i) [0..<length xs]"

text \<open>\<open>idx_shuffle\<close> is the value \<^verbatim>\<open>torch.randperm(x.shape[0])\<close> returned; torch promises
  \<open>is_randperm (length x) idx_shuffle\<close>.\<close>

definition is_randperm :: "nat \<Rightarrow> nat list \<Rightarrow> bool" where
  "is_randperm n idx = (mset idx = mset [0..<n])"

definition MoCov1_batch_shuffle_single_gpu :: "nat list \<Rightarrow> 'a list \<Rightarrow> error + ('a list \<times> nat list)" where
  "MoCov1_batch_shuffle_single_gpu idx_shuffle x =
     (let idx_unshuffle = argsort idx_shuffle in
      case index_select x idx_shuffle of
        Inl e \<Rightarrow> Inl e
      | Inr y \<Rightarrow> Inr (y, idx_unshuffle))"

definition MoCov1_batch_unshuffle_single_gpu :: "'a list \<Rightarrow> nat list \<Rightarrow> error + 'a list" where
  "MoCov1_batch_unshuffle_single_gpu x idx_unshuffle = index_select x idx_unshuffle"

subsection \<open>MoCov1: contrastive loss (lines 110-142)\<close>

text \<open>Float tensors are computed with real arithmetic. A float result that is not a
  finite number has no real value: the loss is a \<open>real option\<close>, \<open>None\<close> where torch
  yields NaN or an infinity.\<close>

definition dot :: "real list \<Rightarrow> real list \<Rightarrow> real" where
  "dot a b = sum_list (map2 (\<lambda>x y. x * y) a b)"

text \<open>\<^verbatim>\<open>torch.einsum('nc,nc->n', [q, k])\<close>.\<close>

definition einsum_nc_nc :: "real list list \<Rightarrow> real list list \<Rightarrow> error + real list" where
  "einsum_nc_nc q k =
     (if list_all2 (\<lambda>a b. length a = length b) q k then Inr (map2 dot q k) else Inl RuntimeError)"

text \<open>\<^verbatim>\<open>torch.einsum('nc,ck->nk', [q, x])\<close> for \<open>x\<close> with \<open>ncols\<close> columns.\<close>

definition einsum_nc_ck :: "real list list \<Rightarrow> nat \<Rightarrow> real list list \<Rightarrow> error + real list list" where
  "einsum_nc_ck q ncols x =
     (if list_all (\<lambda>row. length row = length x) q
      then Inr (map (\<lambda>row. map (\<lambda>j. dot row (col x j)) [0..<ncols]) q)
      else Inl RuntimeError)"

text \<open>Lines 127-135: the logits, positive first, divided by the temperature. (At
  \<open>T = 0\<close> every entry is infinite or NaN in torch; the quotient by 0 of HOL says
  nothing about that case, which \<open>MoCov1_contrastive_loss\<close> reports as \<open>None\<close>.)\<close>

definition MoCov1_logits ::
  "real \<Rightarrow> real list list \<Rightarrow> real list list \<Rightarrow> nat \<Rightarrow> real list list \<Rightarrow> error + real list list"
where
  "MoCov1_logits T q k ncols x =
     (case einsum_nc_nc q k of
        Inl e \<Rightarrow> Inl e
      | Inr l_pos \<Rightarrow>
          (case einsum_nc_ck q ncols x of
             Inl e \<Rightarrow> Inl e
           | Inr l_neg \<Rightarrow>
               Inr (map (map (\<lambda>v. v / T)) (map2 (\<lambda>p ns. p # ns) l_pos l_neg))))"

text \<open>\<^verbatim>\<open>nn.CrossEntropyLoss()(logits, labels)\<close>, with its default mean reduction: the mean
  over the rows of \<open>log (sum_j exp (row[j])) - row[label]\<close>. The mean over no row is
  NaN.\<close>

definition cross_entropy :: "real list list \<Rightarrow> nat list \<Rightarrow> error + real option" where
  "cross_entropy logits labels =
     (if length labels \<noteq> length logits then Inl ValueError
      else if \<not> list_all2 (\<lambda>row y. y < length row) logits labels then Inl IndexError
      else if logits = [] then Inr None
      else Inr (Some (sum_list (map2 (\<lambda>row y. ln (sum_list (map exp row)) - row ! y) logits labels)
                      / real (length logits))))"

text \<open>\<open>fwd_q\<close> and \<open>fwd_k\<close> are the forward passes of \<^verbatim>\<open>self.encoder_q\<close> and
  \<^verbatim>\<open>self.encoder_k\<close>.\<close>

definition MoCov1_contrastive_loss ::
  "(real param list \<Rightarrow> 'i list \<Rightarrow> real list list) \<Rightarrow> (real param list \<Rightarrow> 'i list \<Rightarrow> real list list) \<Rightarrow>
   nat list \<Rightarrow> real moco \<Rightarrow> 'i list \<Rightarrow> 'i list \<Rightarrow>
   error + (real option \<times> real list list \<times> real list list)"
where
  "MoCov1_contrastive_loss fwd_q fwd_k idx_shuffle s im_q im_k =
     (let q = fwd_q (encoder_q s) im_q in
      case MoCov1_batch_shuffle_single_gpu idx_shuffle im_k of
        Inl e \<Rightarrow> Inl e
      | Inr (im_k', idx_unshuffle) \<Rightarrow>
          (case MoCov1_batch_unshuffle_single_gpu (fwd_k (encoder_k s) im_k') idx_unshuffle of
             Inl e \<Rightarrow> Inl e
           | Inr k \<Rightarrow>
               (case MoCov1_logits (self_T s) q k (self_K s) (queue s) of
                  Inl e \<Rightarrow> Inl e
                | Inr logits \<Rightarrow>
                    (let labels = replicate (length logits) 0 in
                     case cross_entropy logits labels of
                       Inl e \<Rightarrow> Inl e
                     | Inr loss \<Rightarrow> Inr (if self_T s = 0 then None else loss, q, k)))))"

subsection \<open>MoCov1: the training step (lines 144-156)\<close>

text \<open>The sum of two float losses.\<close>

definition loss_add :: "real option \<Rightarrow> real option \<Rightarrow> real option" where
  "loss_add a b = (case (a, b) of (Some x, Some y) \<Rightarrow> Some (x + y) | _ \<Rightarrow> None)"

text \<open>\<^verbatim>\<open>torch.cat([a, b], dim=0)\<close>: the rows of both, which must have one length.\<close>

definition cat_dim0 :: "'a list list \<Rightarrow> 'a list list \<Rightarrow> error + 'a list list" where
  "cat_dim0 a b =
     (if list_all (\<lambda>row. length row = length (hd (a @ b))) (a @ b) then Inr (a @ b)
      else Inl RuntimeError)"

definition MoCov1_forward ::
  "(real param list \<Rightarrow> 'i list \<Rightarrow> real list list) \<Rightarrow> (real param list \<Rightarrow> 'i list \<Rightarrow> real list list) \<Rightarrow>
   nat list \<Rightarrow> nat list \<Rightarrow> real moco \<Rightarrow> 'i list \<Rightarrow> 'i list \<Rightarrow> (real option, real moco) res"
where
  "MoCov1_forward fwd_q fwd_k idx_12 idx_21 s im1 im2 =
     (case MoCov1_momentum_update_key_encoder s of
        (Inl e, s1) \<Rightarrow> (Inl e, s1)
      | (Inr _, s1) \<Rightarrow>
          (case MoCov1_contrastive_loss fwd_q fwd_k idx_12 s1 im1 im2 of
             Inl e \<Rightarrow> (Inl e, s1)
           | Inr (loss_12, q1, k2) \<Rightarrow>
               (case MoCov1_contrastive_loss fwd_q fwd_k idx_21 s1 im2 im1 of
                  Inl e \<Rightarrow> (Inl e, s1)
                | Inr (loss_21, q2, k1) \<Rightarrow>
                    (let loss = loss_add loss_12 loss_21 in
                     case cat_dim0 k1 k2 of
                       Inl e \<Rightarrow> (Inl e, s1)
                     | Inr k \<Rightarrow>
                         (case MoCov1_dequeue_and_enqueue s1 k of
                            (Inl e, s2) \<Rightarrow> (Inl e, s2)
                          | (Inr _, s2) \<Rightarrow> (Inr loss, s2))))))"

subsection \<open>MoCov1: construction (lines 55-74)\<close>

text \<open>\<^verbatim>\<open>nn.functional.normalize(x, dim=0)\<close>: every column divided by the larger of its
  Euclidean norm and \<open>1e-12\<close>.\<close>

definition l2_norm :: "real list \<Rightarrow> real" where
  "l2_norm v = sqrt (sum_list (map (\<lambda>x. x * x) v))"

definition F_normalize_dim0 :: "nat \<Rightarrow> real list list \<Rightarrow> real list list" where
  "F_normalize_dim0 ncols x =
     map (\<lambda>row. map (\<lambda>j. row ! j / max (l2_norm (col x j)) (1 / 10 ^ 12)) [0..<ncols]) x"

text \<open>Lines 66-68: \<^verbatim>\<open>param_k.data.copy_(param_q.data)\<close> and
  \<^verbatim>\<open>param_k.requires_grad = False\<close>, pair by pair.\<close>

fun init_loop :: "'a param list \<Rightarrow> 'a param list \<Rightarrow> error + 'a param list" where
  "init_loop (param_q # qs) (param_k # ks) =
     (if length (data param_q) = length (data param_k)
      then (case init_loop qs ks of
              Inl e \<Rightarrow> Inl e
            | Inr ks' \<Rightarrow> Inr (param_k\<lparr>data := data param_q, requires_grad := False\<rparr> # ks'))
      else Inl RuntimeError)"
| "init_loop [] ks = Inr ks"
| "init_loop qs [] = Inr []"

text \<open>\<open>fresh_q\<close> and \<open>fresh_k\<close> are the parameters of the two freshly built
  \<^verbatim>\<open>ModelBasev1\<close> networks, \<open>randn\<close> is the value of \<^verbatim>\<open>torch.randn(feature_dim, K)\<close>.
  The constructor has no batch-size argument.\<close>

definition MoCov1_init ::
  "nat \<Rightarrow> real \<Rightarrow> real \<Rightarrow> real param list \<Rightarrow> real param list \<Rightarrow> real list list \<Rightarrow> error + real moco"
where
  "MoCov1_init K m T fresh_q fresh_k randn =
     (case init_loop fresh_q fresh_k of
        Inl e \<Rightarrow> Inl e
      | Inr ks \<Rightarrow>
          Inr \<lparr>self_K = K, self_m = m, self_T = T,
               encoder_q = fresh_q, encoder_k = ks,
               queue = F_normalize_dim0 K randn, queue_ptr = 0\<rparr>)"

subsection \<open>MoCov2 (lines 186-289)\<close>

text \<open>The methods of \<^verbatim>\<open>MoCov2\<close>, translated from their own source lines. The two classes
  have the same attributes, so both are modelled on the record \<open>moco\<close>; their encoders
  (\<^verbatim>\<open>ModelBasev1\<close>, \<^verbatim>\<open>ModelBasev2\<close>) enter as the forward passes and the fresh
  parameters.\<close>

fun MoCov2_init_loop :: "'a param list \<Rightarrow> 'a param list \<Rightarrow> error + 'a param list" where
  "MoCov2_init_loop (param_q # qs) (param_k # ks) =
     (if length (data param_q) = length (data param_k)
      then (case MoCov2_init_loop qs ks of
              Inl e \<Rightarrow> Inl e
            | Inr ks' \<Rightarrow> Inr (param_k\<lparr>data := data param_q, requires_grad := False\<rparr> # ks'))
      else Inl RuntimeError)"
| "MoCov2_init_loop [] ks = Inr ks"
| "MoCov2_init_loop qs [] = Inr []"

definition MoCov2_init ::
  "nat \<Rightarrow> real \<Rightarrow> real \<Rightarrow> real param list \<Rightarrow> real param list \<Rightarrow> real list list \<Rightarrow> error + real moco"
where
  "MoCov2_init K m T fresh_q fresh_k randn =
     (case MoCov2_init_loop fresh_q fresh_k of
        Inl e \<Rightarrow> Inl e
      | Inr ks \<Rightarrow>
          Inr \<lparr>self_K = K, self_m = m, self_T = T,
               encoder_q = fresh_q, encoder_k = ks,
               queue = F_normalize_dim0 K randn, queue_ptr = 0\<rparr>)"

fun MoCov2_momentum_loop ::
  "'a::{times,plus,minus,one} \<Rightarrow> 'a param list \<Rightarrow> 'a param list \<Rightarrow> (unit, 'a param list) res"
where
  "MoCov2_momentum_loop mm (param_q # qs) (param_k # ks) =
     (case tensor_add (tensor_mul (data param_k) mm) (tensor_mul (data param_q) (1 - mm)) of
        Inl e \<Rightarrow> (Inl e, param_k # ks)
      | Inr d \<Rightarrow>
          (case MoCov2_momentum_loop mm qs ks of
             (r, ks') \<Rightarrow> (r, param_k\<lparr>data := d\<rparr> # ks')))"
| "MoCov2_momentum_loop mm [] ks = (Inr (), ks)"
| "MoCov2_momentum_loop mm qs [] = (Inr (), [])"

definition MoCov2_momentum_update_key_encoder ::
  "'a::{times,plus,minus,one} moco \<Rightarrow> (unit, 'a moco) res"
where
  "MoCov2_momentum_update_key_encoder s =
     (case MoCov2_momentum_loop (self_m s) (encoder_q s) (encoder_k s) of
        (r, ks) \<Rightarrow> (r, s\<lparr>encoder_k := ks\<rparr>))"

definition MoCov2_dequeue_and_enqueue :: "'a moco \<Rightarrow> 'a list list \<Rightarrow> (unit, 'a moco) res" where
  "MoCov2_dequeue_and_enqueue s keys =
     (let batch_size = length keys;
          ptr = queue_ptr s in
      if batch_size = 0 then (Inl ZeroDivisionError, s)
      else if self_K s mod batch_size \<noteq> 0 then (Inl AssertionError, s)
      else
        (case setitem_cols (queue s) (self_K s) ptr (ptr + batch_size) batch_size (tensor_t keys) of
           Inl e \<Rightarrow> (Inl e, s)
         | Inr x \<Rightarrow>
             (let s1 = s\<lparr>queue := x\<rparr> in
              if self_K s = 0 then (Inl ZeroDivisionError, s1)
              else (Inr (), s1\<lparr>queue_ptr := (ptr + batch_size) mod self_K s\<rparr>))))"

definition MoCov2_batch_shuffle_single_gpu :: "nat list \<Rightarrow> 'a list \<Rightarrow> error + ('a list \<times> nat list)" where
  "MoCov2_batch_shuffle_single_gpu idx_shuffle x =
     (let idx_unshuffle = argsort idx_shuffle in
      case index_select x idx_shuffle of
        Inl e \<Rightarrow> Inl e
      | Inr y \<Rightarrow> Inr (y, idx_unshuffle))"

definition MoCov2_batch_unshuffle_single_gpu :: "'a list \<Rightarrow> nat list \<Rightarrow> error + 'a list" where
  "MoCov2_batch_unshuffle_single_gpu x idx_unshuffle = index_select x idx_unshuffle"

definition MoCov2_logits ::
  "real \<Rightarrow> real list list \<Rightarrow> real list list \<Rightarrow> nat \<Rightarrow> real list list \<Rightarrow> error + real list list"
where
  "MoCov2_logits T q k ncols x =
     (case einsum_nc_nc q k of
        Inl e \<Rightarrow> Inl e
      | Inr l_pos \<Rightarrow>
          (case einsum_nc_ck q ncols x of
             Inl e \<Rightarrow> Inl e
           | Inr l_neg \<Rightarrow>
               Inr (map (map (\<lambda>v. v / T)) (map2 (\<lambda>p ns. p # ns) l_pos l_neg))))"

definition MoCov2_contrastive_loss ::
  "(real param list \<Rightarrow> 'i list \<Rightarrow> real list list) \<Rightarrow> (real param list \<Rightarrow> 'i list \<Rightarrow> real list list) \<Rightarrow>
   nat list \<Rightarrow> real moco \<Rightarrow> 'i list \<Rightarrow> 'i list \<Rightarrow>
   error + (real option \<times> real list list \<times> real list list)"
where
  "MoCov2_contrastive_loss fwd_q fwd_k idx_shuffle s im_q im_k =
     (let q = fwd_q (encoder_q s) im_q in
      case MoCov2_batch_shuffle_single_gpu idx_shuffle im_k of
        Inl e \<Rightarrow> Inl e
      | Inr (im_k', idx_unshuffle) \<Rightarrow>
          (case MoCov2_batch_unshuffle_single_gpu (fwd_k (encoder_k s) im_k') idx_unshuffle of
             Inl e \<Rightarrow> Inl e
           | Inr k \<Rightarrow>
               (case MoCov2_logits (self_T s) q k (self_K s) (queue s) of
                  Inl e \<Rightarrow> Inl e
                | Inr logits \<Rightarrow>
                    (let labels = replicate (length logits) 0 in
                     case cross_entropy logits labels of
                       Inl e \<Rightarrow> Inl e
                     | Inr loss \<Rightarrow> Inr (if self_T s = 0 then None else loss, q, k)))))"

definition MoCov2_forward ::
  "(real param list \<Rightarrow> 'i list \<Rightarrow> real list list) \<Rightarrow> (real param list \<Rightarrow> 'i list \<Rightarrow> real list list) \<Rightarrow>
   nat list \<Rightarrow> nat list \<Rightarrow> real moco \<Rightarrow> 'i list \<Rightarrow> 'i list \<Rightarrow> (real option, real moco) res"
where
  "MoCov2_forward fwd_q fwd_k idx_12 idx_21 s im1 im2 =
     (case MoCov2_momentum_update_key_encoder s of
        (Inl e, s1) \<Rightarrow> (Inl e, s1)
      | (Inr _, s1) \<Rightarrow>
          (case MoCov2_contrastive_loss fwd_q fwd_k idx_12 s1 im1 im2 of
             Inl e \<Rightarrow> (Inl e, s1)
           | Inr (loss_12, q1, k2) \<Rightarrow>
               (case MoCov2_contrastive_loss fwd_q fwd_k idx_21 s1 im2 im1 of
                  Inl e \<Rightarrow> (Inl e, s1)
                | Inr (loss_21, q2, k1) \<Rightarrow>
                    (let loss = loss_add loss_12 loss_21 in
                     case cat_dim0 k1 k2 of
                       Inl e \<Rightarrow> (Inl e, s1)
                     | Inr k \<Rightarrow>
                         (case MoCov2_dequeue_and_enqueue s1 k of
                            (Inl e, s2) \<Rightarrow> (Inl e, s2)
                          | (Inr _, s2) \<Rightarrow> (Inr loss, s2))))))"

subsection \<open>linear.py: the evaluation network (lines 15-53)\<close>

text \<open>The feature extractor \<^verbatim>\<open>self.f\<close> a \<^verbatim>\<open>Net\<close> is built around.\<close>

datatype backbone = MoCov1_encoder_q_f | MoCov2_encoder_q_f | SimCLRv1_f | SimCLRv2_f_g1

text \<open>A \<^verbatim>\<open>Net\<close>: its feature extractor and the shape of \<^verbatim>\<open>self.fc\<close>, an
  \<^verbatim>\<open>nn.Linear(in_features, out_features)\<close>.\<close>

record net =
  net_f :: backbone
  fc_in_features :: nat
  fc_out_features :: nat

text \<open>\<^verbatim>\<open>Net.__init__(self, model_name, num_class, pretrained_path)\<close>. Reading the
  checkpoint (line 47) is input/output: \<open>load\<close> is the exception it raises, if any. It
  copies values into the existing tensors and so leaves the shapes alone.\<close>

definition Net_init :: "string \<Rightarrow> nat \<Rightarrow> error option \<Rightarrow> error + net" where
  "Net_init model_name num_class load =
     (case
        (if model_name = ''mocov1'' then
           Inr \<lparr>net_f = MoCov1_encoder_q_f, fc_in_features = 512, fc_out_features = num_class\<rparr>
         else if model_name = ''mocov2'' then
           Inr \<lparr>net_f = MoCov2_encoder_q_f, fc_in_features = 512, fc_out_features = num_class\<rparr>
         else if model_name = ''simclrv1'' then
           Inr \<lparr>net_f = SimCLRv1_f, fc_in_features = 2048, fc_out_features = num_class\<rparr>
         else if model_name = ''simclrv2'' then
           Inr \<lparr>net_f = SimCLRv2_f_g1, fc_in_features = 1024, fc_out_features = num_class\<rparr>
         else Inl AssertionError)
      of
        Inl e \<Rightarrow> Inl e
      | Inr self \<Rightarrow> (case load of Some e \<Rightarrow> Inl e | None \<Rightarrow> Inr self))"

subsection \<open>linear.py: one epoch (lines 56-82) and its callers (lines 123-128)\<close>

text \<open>The running totals of \<^verbatim>\<open>train_val\<close> (line 60).\<close>

record totals =
  total_loss :: real
  total_correct_1 :: real
  total_correct_5 :: real
  total_num :: nat

text \<open>\<^verbatim>\<open>torch.argsort(out, dim=-1, descending=True)\<close> on one row (equal entries in
  their original order).\<close>

definition argsort_descending :: "real list \<Rightarrow> nat list" where
  "argsort_descending row = sort_key (\<lambda>i. - (row ! i)) [0..<length row]"

text \<open>The sum over the batch of
  \<^verbatim>\<open>(prediction[:, 0:k] == target.unsqueeze(dim=-1)).any(dim=-1).float()\<close>.\<close>

definition correct_top :: "nat \<Rightarrow> real list list \<Rightarrow> nat list \<Rightarrow> real" where
  "correct_top k out target =
     real (length (filter (\<lambda>(row, y). y \<in> set (take k (argsort_descending row))) (zip out target)))"

text \<open>The body of the loop of lines 62-80 over the batches \<open>(data, target)\<close> of the
  loader. \<open>net_fwd\<close> is the forward pass of the network, \<open>loss_criterion\<close> the global of
  that name, \<open>opt_step\<close> the effect of lines 68-70 on the network and the optimizer.
  Of the progress bar, the text of lines 78-80 is computed in every pass: it divides
  by \<^verbatim>\<open>total_num\<close>, which is still 0 when every batch so far was empty.\<close>

fun train_val_loop ::
  "('n \<Rightarrow> 'x list \<Rightarrow> real list list) \<Rightarrow> (real list list \<Rightarrow> nat list \<Rightarrow> real) \<Rightarrow>
   ('n \<Rightarrow> 'o \<Rightarrow> 'x list \<Rightarrow> nat list \<Rightarrow> 'n \<times> 'o) \<Rightarrow>
   ('x list \<times> nat list) list \<Rightarrow> 'n \<Rightarrow> 'o option \<Rightarrow> totals \<Rightarrow>
   error + ('n \<times> 'o option \<times> totals)"
where
  "train_val_loop net_fwd loss_criterion opt_step [] net train_optimizer acc =
     Inr (net, train_optimizer, acc)"
| "train_val_loop net_fwd loss_criterion opt_step ((dat, target) # rest) net train_optimizer acc =
     (let out = net_fwd net dat;
          loss = loss_criterion out target;
          (net', train_optimizer') =
            (case train_optimizer of
               None \<Rightarrow> (net, None)
             | Some opt \<Rightarrow> (case opt_step net opt dat target of (n, opt') \<Rightarrow> (n, Some opt')));
          acc' = acc\<lparr>total_num := total_num acc + length dat,
                     total_loss := total_loss acc + loss * real (length dat),
                     total_correct_1 := total_correct_1 acc + correct_top 1 out target,
                     total_correct_5 := total_correct_5 acc + correct_top 5 out target\<rparr>
      in if total_num acc' = 0 then Inl ZeroDivisionError
         else train_val_loop net_fwd loss_criterion opt_step rest net' train_optimizer' acc')"

text \<open>\<^verbatim>\<open>def train_val(net, data_loader, train_optimizer)\<close>: \<open>None\<close> for the optimizer is
  Python's \<^verbatim>\<open>None\<close>. Line 82 divides by \<^verbatim>\<open>total_num\<close>, which is 0 for an empty
  loader.\<close>

definition train_val ::
  "('n \<Rightarrow> 'x list \<Rightarrow> real list list) \<Rightarrow> (real list list \<Rightarrow> nat list \<Rightarrow> real) \<Rightarrow>
   ('n \<Rightarrow> 'o \<Rightarrow> 'x list \<Rightarrow> nat list \<Rightarrow> 'n \<times> 'o) \<Rightarrow>
   'n \<Rightarrow> ('x list \<times> nat list) list \<Rightarrow> 'o option \<Rightarrow>
   error + ((real \<times> real \<times> real) \<times> 'n \<times> 'o option)"
where
  "train_val net_fwd loss_criterion opt_step net data_loader train_optimizer =
     (case train_val_loop net_fwd loss_criterion opt_step data_loader net train_optimizer
             \<lparr>total_loss = 0, total_correct_1 = 0, total_correct_5 = 0, total_num = 0\<rparr> of
        Inl e \<Rightarrow> Inl e
      | Inr (net', opt', acc) \<Rightarrow>
          if total_num acc = 0 then Inl ZeroDivisionError
          else Inr ((total_loss acc / real (total_num acc),
                     total_correct_1 acc / real (total_num acc) * 100,
                     total_correct_5 acc / real (total_num acc) * 100), net', opt'))"

text \<open>The objects the script passes around.\<close>

datatype ('n, 'x, 'o, 'sch) pyobj =
    Model 'n
  | DataLoader "('x list \<times> nat list) list"
  | Optimizer 'o
  | StepLR 'sch
  | PyNone

text \<open>The signature of \<^verbatim>\<open>train_val\<close> (line 56): three positional parameters, no default
  values, no \<^verbatim>\<open>*args\<close>.\<close>

definition train_val_parameters :: "string list" where
  "train_val_parameters = [''net'', ''data_loader'', ''train_optimizer'']"

text \<open>A call \<^verbatim>\<open>train_val(a1, ..., an)\<close>: Python binds the arguments to the parameters
  before it runs the body and raises TypeError when their numbers differ. An argument
  of the wrong kind fails at its first use in the body:
  \<^item> \<^verbatim>\<open>net.train()\<close> or \<^verbatim>\<open>net.eval()\<close> (line 58) raises AttributeError on anything but a
    network;
  \<^item> the iteration of line 62 raises TypeError on anything but a loader (\<^verbatim>\<open>None\<close>, a
    network, an optimizer and a scheduler are not iterable);
  \<^item> an object other than \<^verbatim>\<open>None\<close> in the place of the optimizer makes \<^verbatim>\<open>is_train\<close>
    true, and lines 68-70 raise AttributeError in the first pass of the loop (a loader
    and a scheduler have no \<^verbatim>\<open>zero_grad\<close>, a network has \<^verbatim>\<open>zero_grad\<close> but no
    \<^verbatim>\<open>step\<close>); on an empty loader the loop makes no pass and line 82 raises
    ZeroDivisionError.\<close>

definition call_train_val ::
  "('n \<Rightarrow> 'x list \<Rightarrow> real list list) \<Rightarrow> (real list list \<Rightarrow> nat list \<Rightarrow> real) \<Rightarrow>
   ('n \<Rightarrow> 'o \<Rightarrow> 'x list \<Rightarrow> nat list \<Rightarrow> 'n \<times> 'o) \<Rightarrow>
   ('n, 'x, 'o, 'sch) pyobj list \<Rightarrow> error + ((real \<times> real \<times> real) \<times> 'n \<times> 'o option)"
where
  "call_train_val net_fwd loss_criterion opt_step args =
     (if length args \<noteq> length train_val_parameters then Inl TypeError
      else case args of
          [a1, a2, a3] \<Rightarrow>
            (case a1 of
               Model net \<Rightarrow>
                 (case a2 of
                    DataLoader data_loader \<Rightarrow>
                      (case a3 of
                         Optimizer opt \<Rightarrow>
                           train_val net_fwd loss_criterion opt_step net data_loader (Some opt)
                       | PyNone \<Rightarrow>
                           train_val net_fwd loss_criterion opt_step net data_loader None
                       | _ \<Rightarrow>
                           if data_loader = [] then Inl ZeroDivisionError
                           else Inl AttributeError)
                  | _ \<Rightarrow> Inl TypeError)
             | _ \<Rightarrow> Inl AttributeError)
        | _ \<Rightarrow> Inl TypeError)"

text \<open>The two calls of one pass through the loop of lines 123-131: line 124, then
  line 128 on the network line 124 left.\<close>

definition main_epoch ::
  "('n \<Rightarrow> 'x list \<Rightarrow> real list list) \<Rightarrow> (real list list \<Rightarrow> nat list \<Rightarrow> real) \<Rightarrow>
   ('n \<Rightarrow> 'o \<Rightarrow> 'x list \<Rightarrow> nat list \<Rightarrow> 'n \<times> 'o) \<Rightarrow>
   'n \<Rightarrow> ('x list \<times> nat list) list \<Rightarrow> ('x list \<times> nat list) list \<Rightarrow> 'o \<Rightarrow> 'sch \<Rightarrow>
   error + ((real \<times> real \<times> real) \<times> (real \<times> real \<times> real))"
where
  "main_epoch net_fwd loss_criterion opt_step model train_loader test_loader optimizer scheduler =
     (case call_train_val net_fwd loss_criterion opt_step
             [Model model, DataLoader train_loader, Optimizer optimizer, StepLR scheduler] of
        Inl e \<Rightarrow> Inl e
      | Inr (train_stats, model', _) \<Rightarrow>
          (case call_train_val net_fwd loss_criterion opt_step
                  [Model model', DataLoader test_loader, PyNone :: ('n, 'x, 'o, 'sch) pyobj] of
             Inl e \<Rightarrow> Inl e
           | Inr (test_stats, _, _) \<Rightarrow> Inr (train_stats, test_stats)))"

subsection \<open>Notions used in the statements\<close>

text \<open>The key batch of \<^verbatim>\<open>contrastive_loss\<close> (lines 115-122): the output of the key
  encoder on the shuffled batch, unshuffled.\<close>

definition key_features ::
  "(real param list \<Rightarrow> 'i list \<Rightarrow> real list list) \<Rightarrow> nat list \<Rightarrow> real moco \<Rightarrow> 'i list \<Rightarrow> real list list"
where
  "key_features fwd_k idx_shuffle s im_k =
     map (\<lambda>j. fwd_k (encoder_k s) (map (\<lambda>i. im_k ! i) idx_shuffle) ! j) (argsort idx_shuffle)"

text \<open>The loss in the words of the specification: cross-entropy with ground-truth class
  0 for every row, averaged over the rows.\<close>

definition spec_loss :: "real list list \<Rightarrow> real" where
  "spec_loss logits =
     sum_list (map (\<lambda>row. ln (sum_list (map exp row)) - row ! 0) logits) / real (length logits)"

text \<open>A model of capacity 3, as the constructor returns it, and a network for the
  worked examples: every input is embedded as \<open>(1, 0)\<close>.\<close>

definition odd_model :: "real moco" where
  "odd_model = \<lparr>self_K = 3, self_m = 1 / 2, self_T = 1 / 10,
                encoder_q = [\<lparr>data = [1, 3], requires_grad = True\<rparr>],
                encoder_k = [\<lparr>data = [1, 3], requires_grad = False\<rparr>],
                queue = [[1, 0, 0], [0, 1, 1]], queue_ptr = 0\<rparr>"

definition const_net :: "real param list \<Rightarrow> 'i list \<Rightarrow> real list list" where
  "const_net ps x = map (\<lambda>_. [1, 0]) x"

text \<open>The key parameters the momentum rule prescribes in state \<open>s\<close>: every key tensor
  replaced by \<open>K*m + Q*(1-m)\<close>.\<close>

definition key_momentum_rule :: "'a::{times,plus,minus,one} moco \<Rightarrow> 'a param list" where
  "key_momentum_rule s =
     map2 (\<lambda>q k. k\<lparr>data := ema (self_m s) (data k) (data q)\<rparr>) (encoder_q s) (encoder_k s)"

text \<open>Modelled from the spec: the backward pass and the optimizer step of the training
  script, which is not among the source files. A parameter marked non-trainable is
  excluded from gradient-based optimization; a trainable one gets new entries, here
  any at all (\<open>upd i j v\<close> is the new entry \<open>j\<close> of parameter \<open>i\<close>, whose old entry is \<open>v\<close>).\<close>

definition gradient_update :: "(nat \<Rightarrow> nat \<Rightarrow> 'a \<Rightarrow> 'a) \<Rightarrow> 'a param list \<Rightarrow> 'a param list" where
  "gradient_update upd ps =
     map (\<lambda>i. if requires_grad (ps ! i)
               then (ps ! i)\<lparr>data := map (\<lambda>j. upd i j (data (ps ! i) ! j)) [0..<length (data (ps ! i))]\<rparr>
               else ps ! i)
         [0..<length ps]"

definition gradient_step ::
  "(nat \<Rightarrow> nat \<Rightarrow> 'a \<Rightarrow> 'a) \<Rightarrow> (nat \<Rightarrow> nat \<Rightarrow> 'a \<Rightarrow> 'a) \<Rightarrow> 'a moco \<Rightarrow> 'a moco" where
  "gradient_step upd_q upd_k s =
     s\<lparr>encoder_q := gradient_update upd_q (encoder_q s),
       encoder_k := gradient_update upd_k (encoder_k s)\<rparr>"

text \<open>What can happen to a model after its construction: a call of one of its
  methods, with any arguments and whether or not it raises, or a gradient step.\<close>

inductive moco_step ::
  "(real param list \<Rightarrow> 'i list \<Rightarrow> real list list) \<Rightarrow> (real param list \<Rightarrow> 'i list \<Rightarrow> real list list) \<Rightarrow>
   real moco \<Rightarrow> real moco \<Rightarrow> bool"
  for fwd_q and fwd_k
where
  step_forward:
    "MoCov1_forward fwd_q fwd_k idx_12 idx_21 s im1 im2 = (r, s') \<Longrightarrow> moco_step fwd_q fwd_k s s'"
| step_momentum:
    "MoCov1_momentum_update_key_encoder s = (r, s') \<Longrightarrow> moco_step fwd_q fwd_k s s'"
| step_enqueue:
    "MoCov1_dequeue_and_enqueue s keys = (r, s') \<Longrightarrow> moco_step fwd_q fwd_k s s'"
| step_gradient:
    "moco_step fwd_q fwd_k s (gradient_step upd_q upd_k s)"

text \<open>A network that turns a batch of \<open>n\<close> inputs into an \<open>(n, c)\<close> tensor, whatever its
  parameters.\<close>

definition embeds :: "nat \<Rightarrow> ('p \<Rightarrow> 'i list \<Rightarrow> 'a list list) \<Rightarrow> bool" where
  "embeds c fwd = (\<forall>ps x. is_tensor (length x) c (fwd ps x))"

text \<open>A state for the worked examples: capacity 4, two embedding coordinates, one
  parameter tensor of two entries per encoder.\<close>

definition demo :: "real moco" where
  "demo = \<lparr>self_K = 4, self_m = 1 / 2, self_T = 1 / 10,
           encoder_q = [\<lparr>data = [1, 3], requires_grad = True\<rparr>],
           encoder_k = [\<lparr>data = [3, 5], requires_grad = False\<rparr>],
           queue = [[1, 0, 1, 0], [0, 1, 0, 1]], queue_ptr = 0\<rparr>"

text \<open>The model \<open>demo\<close> after one training step on one image per view, embedded by
  \<open>const_net\<close>.\<close>

definition stepped :: "real moco" where
  "stepped = demo\<lparr>encoder_k := [\<lparr>data = [2, 4], requires_grad = False\<rparr>],
                  queue := [[1, 1, 1, 0], [0, 0, 0, 1]], queue_ptr := 2\<rparr>"

text \<open>The queue after a write that fits: row by row, the old entries before \<open>ptr\<close>, the
  batch, the old entries from \<open>ptr + b\<close> on.\<close>

definition written :: "'a list list \<Rightarrow> nat \<Rightarrow> 'a list list \<Rightarrow> 'a list list" where
  "written x ptr keys =
     map (\<lambda>c. take ptr (x ! c) @ col keys c @ drop (ptr + length keys) (x ! c)) [0..<length x]"

section \<open>Properties\<close>

lemma momentum_loop_same_shapes:
  "same_shapes qs ks \<Longrightarrow>
   momentum_loop mm qs ks =
     (Inr (), map2 (\<lambda>q k. k\<lparr>data := ema mm (data k) (data q)\<rparr>) qs ks)"
  unfolding same_shapes_def
proof (induction qs ks rule: list_all2_induct)
  case Nil
  show ?case by simp
next
  case (Cons q qs k ks)
  have "map2 (\<lambda>x y. x + y) (tensor_mul (data k) mm) (tensor_mul (data q) (1 - mm))
        = ema mm (data k) (data q)"
    by (simp add: tensor_mul_def ema_def zip_map1 zip_map2 case_prod_unfold)
  with Cons show ?case
    by (simp add: tensor_add_def tensor_mul_def)
qed

subsection \<open>C1: the momentum update\<close>

lemma ema_nth:
  "length kd = length qd \<Longrightarrow> j < length kd \<Longrightarrow>
   ema mm kd qd ! j = kd ! j * mm + qd ! j * (1 - mm)"
  by (simp add: ema_def)

lemma length_ema: "length (ema mm kd qd) = min (length kd) (length qd)"
  by (simp add: ema_def)

text \<open>
  C1. For every momentum coefficient \<open>m\<close> (in particular every \<open>m\<close> in (0,1)) and every
  pair of a query and a key parameter tensor of the dual encoder, one execution of
  \<^verbatim>\<open>_momentum_update_key_encoder\<close> returns normally, replaces the key tensor \<open>K\<close> by
  \<open>K*m + Q*(1-m)\<close> entry by entry and leaves everything else of the object, the query
  parameters included, as it was. The two encoders have the same parameter shapes, as
  the constructor builds them. The statement holds for every arithmetic on the entries
  (any type with \<open>*\<close>, \<open>+\<close>, \<open>-\<close> and \<open>1\<close>), floating point included.
\<close>

theorem momentum_update_key_encoder_rule:
  fixes s :: "'a::{times,plus,minus,one} moco"
  assumes "same_shapes (encoder_q s) (encoder_k s)"
  shows "\<exists>ks'. MoCov1_momentum_update_key_encoder s = (Inr (), s\<lparr>encoder_k := ks'\<rparr>)
            \<and> length ks' = length (encoder_k s)
            \<and> (\<forall>i<length ks'.
                  data (ks' ! i) = ema (self_m s) (data (encoder_k s ! i)) (data (encoder_q s ! i))
                \<and> requires_grad (ks' ! i) = requires_grad (encoder_k s ! i)
                \<and> length (data (ks' ! i)) = length (data (encoder_k s ! i))
                \<and> (\<forall>j<length (data (ks' ! i)).
                      data (ks' ! i) ! j
                        = data (encoder_k s ! i) ! j * self_m s
                          + data (encoder_q s ! i) ! j * (1 - self_m s)))"
proof -
  let ?ks = "map2 (\<lambda>q k. k\<lparr>data := ema (self_m s) (data k) (data q)\<rparr>) (encoder_q s) (encoder_k s)"
  have len: "length (encoder_q s) = length (encoder_k s)"
    using assms by (simp add: same_shapes_def list_all2_lengthD)
  have shape: "length (data (encoder_q s ! i)) = length (data (encoder_k s ! i))"
    if "i < length (encoder_k s)" for i
    using list_all2_nthD2 [OF assms [unfolded same_shapes_def] that] .
  have run: "MoCov1_momentum_update_key_encoder s = (Inr (), s\<lparr>encoder_k := ?ks\<rparr>)"
    by (simp add: MoCov1_momentum_update_key_encoder_def momentum_loop_same_shapes [OF assms])
  have l: "length ?ks = length (encoder_k s)"
    using len by simp
  have pt: "data (?ks ! i) = ema (self_m s) (data (encoder_k s ! i)) (data (encoder_q s ! i))
            \<and> requires_grad (?ks ! i) = requires_grad (encoder_k s ! i)
            \<and> length (data (?ks ! i)) = length (data (encoder_k s ! i))
            \<and> (\<forall>j<length (data (?ks ! i)).
                  data (?ks ! i) ! j
                    = data (encoder_k s ! i) ! j * self_m s
                      + data (encoder_q s ! i) ! j * (1 - self_m s))"
    if "i < length ?ks" for i
  proof -
    have i: "i < length (encoder_k s)" "i < length (encoder_q s)"
      using that len by simp_all
    have d: "data (?ks ! i) = ema (self_m s) (data (encoder_k s ! i)) (data (encoder_q s ! i))"
      and r: "requires_grad (?ks ! i) = requires_grad (encoder_k s ! i)"
      using i by simp_all
    show ?thesis
      using shape [OF i(1)] by (simp add: d r length_ema ema_nth)
  qed
  from run l pt show ?thesis by blast
qed

theorem momentum_update_key_encoder_rule_witness:
  "same_shapes (encoder_q demo) (encoder_k demo)
   \<and> MoCov1_momentum_update_key_encoder demo
       = (Inr (), demo\<lparr>encoder_k := [\<lparr>data = [2, 4], requires_grad = False\<rparr>]\<rparr>)"
proof -
  have h: "same_shapes (encoder_q demo) (encoder_k demo)"
    by (simp add: demo_def same_shapes_def)
  from momentum_update_key_encoder_rule [OF h]
  obtain ks' where
    run: "MoCov1_momentum_update_key_encoder demo = (Inr (), demo\<lparr>encoder_k := ks'\<rparr>)"
    and len: "length ks' = length (encoder_k demo)"
    and pt: "\<forall>i<length ks'.
        data (ks' ! i) = ema (self_m demo) (data (encoder_k demo ! i)) (data (encoder_q demo ! i))
      \<and> requires_grad (ks' ! i) = requires_grad (encoder_k demo ! i)"
    by blast
  from len obtain p where ks': "ks' = [p]"
    by (cases ks') (simp_all add: demo_def)
  from pt ks' have "data p = [2, 4]" "requires_grad p = False"
    by (simp_all add: demo_def ema_def)
  then have "p = \<lparr>data = [2, 4], requires_grad = False\<rparr>"
    by (cases p) simp
  with h run ks' show ?thesis by simp
qed

subsection \<open>C4: batch shuffle and unshuffle\<close>

lemma randperm_length: "is_randperm n idx \<Longrightarrow> length idx = n"
  using mset_eq_length [of idx "[0..<n]"] by (simp add: is_randperm_def)

lemma randperm_set: "is_randperm n idx \<Longrightarrow> set idx = {0..<n}"
  using mset_eq_setD [of idx "[0..<n]"] by (simp add: is_randperm_def)

lemma randperm_distinct: "is_randperm n idx \<Longrightarrow> distinct idx"
  using mset_eq_imp_distinct_iff [of idx "[0..<n]"] by (simp add: is_randperm_def)

text \<open>Reading a permutation at the positions its argsort lists gives \<open>0, 1, ..., n-1\<close>.\<close>

lemma argsort_randperm:
  assumes "is_randperm n idx"
  shows "map (\<lambda>i. idx ! i) (argsort idx) = [0..<n]"
proof -
  have len: "length idx = n"
    by (rule randperm_length [OF assms])
  have "mset (map (\<lambda>i. idx ! i) (argsort idx)) = mset (map (\<lambda>i. idx ! i) [0..<length idx])"
    by (simp add: argsort_def)
  also have "\<dots> = mset idx"
    by (simp only: map_nth)
  finally have m: "mset (map (\<lambda>i. idx ! i) (argsort idx)) = mset [0..<n]"
    using assms by (simp add: is_randperm_def)
  have "sorted (map (\<lambda>i. idx ! i) (argsort idx))"
    by (simp add: argsort_def)
  from properties_for_sort [OF m this] show ?thesis
    by simp
qed

lemma argsort_length: "length (argsort idx) = length idx"
  by (simp add: argsort_def)

lemma argsort_set: "set (argsort idx) = {0..<length idx}"
  by (simp add: argsort_def)

lemma argsort_right_inverse:
  assumes "is_randperm n idx" and "j < n"
  shows "idx ! (argsort idx ! j) = j"
proof -
  have "j < length (argsort idx)"
    using assms by (simp add: argsort_length randperm_length)
  then have "map (\<lambda>i. idx ! i) (argsort idx) ! j = idx ! (argsort idx ! j)"
    by simp
  then show ?thesis
    using assms by (simp add: argsort_randperm)
qed

lemma argsort_left_inverse:
  assumes "is_randperm n idx" and "i < n"
  shows "argsort idx ! (idx ! i) = i"
proof -
  have len: "length idx = n"
    by (rule randperm_length [OF assms(1)])
  have "idx ! i \<in> set idx"
    using assms(2) len by simp
  then have r: "idx ! i < n"
    using randperm_set [OF assms(1)] by simp
  then have "argsort idx ! (idx ! i) \<in> set (argsort idx)"
    by (simp add: argsort_length len)
  then have a: "argsort idx ! (idx ! i) < length idx"
    by (simp add: argsort_set)
  have "idx ! (argsort idx ! (idx ! i)) = idx ! i"
    by (rule argsort_right_inverse [OF assms(1) r])
  with randperm_distinct [OF assms(1)] a assms(2) len show ?thesis
    by (simp add: nth_eq_iff_index_eq)
qed

lemma index_select_randperm:
  assumes "is_randperm (length x) idx"
  shows "index_select x idx = Inr (map (\<lambda>i. x ! i) idx)"
proof -
  have "list_all (\<lambda>i. i < length x) idx"
    using randperm_set [OF assms] by (simp add: list_all_iff)
  then show ?thesis
    by (simp add: index_select_def)
qed

lemma index_select_argsort:
  assumes "is_randperm n idx" and "length y = n"
  shows "index_select y (argsort idx) = Inr (map (\<lambda>i. y ! i) (argsort idx))"
proof -
  have "list_all (\<lambda>i. i < length y) (argsort idx)"
    using assms by (simp add: list_all_iff argsort_set randperm_length)
  then show ?thesis
    by (simp add: index_select_def)
qed

text \<open>Unshuffling what was shuffled, for any batch \<open>y\<close> of the right length.\<close>

lemma unshuffle_shuffled:
  assumes "is_randperm (length y) idx"
  shows "map (\<lambda>j. map (\<lambda>i. y ! i) idx ! j) (argsort idx) = y"
proof -
  have len: "length idx = length y"
    by (rule randperm_length [OF assms])
  have "map (\<lambda>j. map (\<lambda>i. y ! i) idx ! j) (argsort idx)
        = map (\<lambda>j. y ! (idx ! j)) (argsort idx)"
    by (rule map_cong) (simp_all add: argsort_set len)
  also have "\<dots> = map (\<lambda>i. y ! i) (map (\<lambda>j. idx ! j) (argsort idx))"
    by simp
  also have "\<dots> = y"
    by (simp only: argsort_randperm [OF assms] map_nth)
  finally show ?thesis .
qed

text \<open>
  C4. For every batch \<open>B\<close>, with \<open>idx_shuffle\<close> the permutation \<^verbatim>\<open>torch.randperm\<close> drew:
  the shuffle returns \<open>B\<close> reordered by \<open>idx_shuffle\<close> together with
  \<open>argsort idx_shuffle\<close>; unshuffling the shuffled batch with that index returns \<open>B\<close>
  in its original order; \<open>idx_shuffle\<close> is a bijection on the batch positions and the
  returned index is its inverse permutation, on both sides.
\<close>

theorem batch_shuffle_unshuffle_roundtrip:
  assumes "is_randperm (length B) idx_shuffle"
  shows "\<exists>B' idx_unshuffle.
           MoCov1_batch_shuffle_single_gpu idx_shuffle B = Inr (B', idx_unshuffle)
         \<and> MoCov1_batch_unshuffle_single_gpu B' idx_unshuffle = Inr B
         \<and> B' = map (\<lambda>i. B ! i) idx_shuffle
         \<and> idx_unshuffle = argsort idx_shuffle
         \<and> length idx_unshuffle = length B
         \<and> bij_betw (\<lambda>i. idx_shuffle ! i) {..<length B} {..<length B}
         \<and> (\<forall>i<length B. idx_unshuffle ! (idx_shuffle ! i) = i
                         \<and> idx_shuffle ! (idx_unshuffle ! i) = i)"
proof -
  let ?B' = "map (\<lambda>i. B ! i) idx_shuffle"
  let ?u = "argsort idx_shuffle"
  have len: "length idx_shuffle = length B"
    by (rule randperm_length [OF assms])
  have sh: "MoCov1_batch_shuffle_single_gpu idx_shuffle B = Inr (?B', ?u)"
    by (simp add: MoCov1_batch_shuffle_single_gpu_def index_select_randperm [OF assms])
  have "MoCov1_batch_unshuffle_single_gpu ?B' ?u = Inr (map (\<lambda>j. ?B' ! j) ?u)"
    unfolding MoCov1_batch_unshuffle_single_gpu_def
    by (rule index_select_argsort [OF assms]) (simp add: len)
  then have un: "MoCov1_batch_unshuffle_single_gpu ?B' ?u = Inr B"
    by (simp only: unshuffle_shuffled [OF assms])
  have inv: "\<forall>i<length B. ?u ! (idx_shuffle ! i) = i \<and> idx_shuffle ! (?u ! i) = i"
    using argsort_left_inverse [OF assms] argsort_right_inverse [OF assms] by simp
  have "bij_betw (\<lambda>i. idx_shuffle ! i) {..<length idx_shuffle} (set idx_shuffle)"
    by (rule bij_betw_nth [OF randperm_distinct [OF assms]]) simp_all
  then have bij: "bij_betw (\<lambda>i. idx_shuffle ! i) {..<length B} {..<length B}"
    by (simp add: len randperm_set [OF assms] lessThan_atLeast0)
  from sh un inv bij show ?thesis
    by (simp add: argsort_length len)
qed

theorem batch_shuffle_unshuffle_roundtrip_witness:
  "is_randperm (length [''a'', ''b'', ''c'']) [2, 0, 1]
   \<and> MoCov1_batch_shuffle_single_gpu [2, 0, 1] [''a'', ''b'', ''c'']
       = Inr ([''c'', ''a'', ''b''], [1, 2, 0])
   \<and> MoCov1_batch_unshuffle_single_gpu [''c'', ''a'', ''b''] [1, 2, 0]
       = Inr [''a'', ''b'', ''c'']"
proof -
  have "[0..<3] = [0, 1, 2]"
    by (simp add: upt_rec)
  then have h: "is_randperm (length [''a'', ''b'', ''c'']) [2, 0, 1]"
    by (simp add: is_randperm_def)
  have a: "argsort [2, 0, 1] = [1, 2, 0]"
    by (simp add: argsort_def upt_rec)
  from batch_shuffle_unshuffle_roundtrip [OF h] a show ?thesis
    using h by auto
qed

subsection \<open>C3: the queue\<close>

lemma length_col: "length (col x j) = length x"
  by (simp add: col_def)

lemma col_nth: "c < length x \<Longrightarrow> col x j ! c = x ! c ! j"
  by (simp add: col_def)

lemma is_tensor_row: "is_tensor n c x \<Longrightarrow> i < n \<Longrightarrow> length (x ! i) = c"
  by (simp add: is_tensor_def list_all_length)

lemma length_tensor_t: "is_tensor b c keys \<Longrightarrow> 0 < b \<Longrightarrow> length (tensor_t keys) = c"
  by (cases keys) (simp_all add: tensor_t_def is_tensor_def)

lemma tensor_t_nth: "is_tensor b c keys \<Longrightarrow> 0 < b \<Longrightarrow> i < c \<Longrightarrow> tensor_t keys ! i = col keys i"
  by (cases keys) (simp_all add: tensor_t_def is_tensor_def)

lemma setitem_cols_fits:
  assumes x: "is_tensor c ncols x" and k: "is_tensor b c keys" and b: "0 < b"
    and fit: "ptr + b \<le> ncols"
  shows "setitem_cols x ncols ptr (ptr + b) b (tensor_t keys) = Inr (written x ptr keys)"
proof -
  have lx: "length x = c" and lk: "length keys = b"
    using x k by (simp_all add: is_tensor_def)
  have lt: "length (tensor_t keys) = c"
    by (rule length_tensor_t [OF k b])
  have lo: "min ptr ncols = ptr" and hi: "max ptr (min (ptr + b) ncols) = ptr + b"
    using fit by simp_all
  have entry: "map (\<lambda>j. tensor_t keys ! (if c = 1 then 0 else i) ! (if b = 1 then 0 else j)) [0..<b]
               = col keys i" if "i < c" for i
  proof (rule nth_equalityI)
    show "length (map (\<lambda>j. tensor_t keys ! (if c = 1 then 0 else i) ! (if b = 1 then 0 else j)) [0..<b])
          = length (col keys i)"
      by (simp add: length_col lk)
  next
    fix j
    assume "j < length (map (\<lambda>j. tensor_t keys ! (if c = 1 then 0 else i) ! (if b = 1 then 0 else j)) [0..<b])"
    then have j: "j < b" by simp
    have i0: "(if c = 1 then 0 else i) = i" using that by simp
    have j0: "(if b = 1 then 0 else j) = j" using j by simp
    have "tensor_t keys ! (if c = 1 then 0 else i) ! (if b = 1 then 0 else j) = col keys i ! j"
      by (simp only: i0 j0 tensor_t_nth [OF k b that])
    then show "map (\<lambda>j. tensor_t keys ! (if c = 1 then 0 else i) ! (if b = 1 then 0 else j)) [0..<b] ! j
          = col keys i ! j"
      using j by (auto split: if_splits)
  qed
  have "map (\<lambda>i. take ptr (x ! i)
                 @ map (\<lambda>j. tensor_t keys ! (if c = 1 then 0 else i) ! (if b = 1 then 0 else j)) [0..<b]
                 @ drop (ptr + b) (x ! i)) [0..<c]
        = map (\<lambda>i. take ptr (x ! i) @ col keys i @ drop (ptr + b) (x ! i)) [0..<c]"
  proof (rule map_cong [OF refl])
    fix i
    assume "i \<in> set [0..<c]"
    then have "i < c" by simp
    then show "take ptr (x ! i)
                 @ map (\<lambda>j. tensor_t keys ! (if c = 1 then 0 else i) ! (if b = 1 then 0 else j)) [0..<b]
                 @ drop (ptr + b) (x ! i)
               = take ptr (x ! i) @ col keys i @ drop (ptr + b) (x ! i)"
      by (simp only: entry)
  qed
  then show ?thesis
    by (simp add: setitem_cols_def Let_def lo hi lt lx lk written_def)
qed

lemma written_tensor:
  assumes x: "is_tensor c ncols x" and k: "is_tensor b c keys" and fit: "ptr + b \<le> ncols"
  shows "is_tensor c ncols (written x ptr keys)"
proof -
  have lx: "length x = c" and lk: "length keys = b"
    using x k by (simp_all add: is_tensor_def)
  have "length (take ptr (x ! i) @ col keys i @ drop (ptr + length keys) (x ! i)) = ncols"
    if "i < c" for i
    using is_tensor_row [OF x that] fit by (simp add: length_col lk)
  then show ?thesis
    by (simp add: is_tensor_def written_def lx list_all_length)
qed

text \<open>Column by column: the batch sits in columns \<open>ptr, ..., ptr + b - 1\<close>, one key per
  column, and every other column is as before.\<close>

lemma col_written:
  assumes x: "is_tensor c ncols x" and k: "is_tensor b c keys" and fit: "ptr + b \<le> ncols"
    and j: "j < ncols"
  shows "col (written x ptr keys) j
         = (if ptr \<le> j \<and> j < ptr + b then keys ! (j - ptr) else col x j)"
proof (rule nth_equalityI)
  have lx: "length x = c" and lk: "length keys = b"
    using x k by (simp_all add: is_tensor_def)
  show "length (col (written x ptr keys) j)
        = length (if ptr \<le> j \<and> j < ptr + b then keys ! (j - ptr) else col x j)"
    using is_tensor_row [OF k, of "j - ptr"] by (auto simp: length_col written_def lx)
  fix i
  assume "i < length (col (written x ptr keys) j)"
  then have i: "i < c"
    by (simp add: length_col written_def lx)
  have row: "length (x ! i) = ncols"
    by (rule is_tensor_row [OF x i])
  have w: "written x ptr keys ! i = take ptr (x ! i) @ col keys i @ drop (ptr + b) (x ! i)"
    using i by (simp add: written_def lx lk)
  have "col (written x ptr keys) j ! i = written x ptr keys ! i ! j"
    using i by (simp add: col_def written_def lx)
  also have "\<dots> = (if ptr \<le> j \<and> j < ptr + b then keys ! (j - ptr) ! i else x ! i ! j)"
  proof -
    consider "j < ptr" | "ptr \<le> j" "j < ptr + b" | "ptr + b \<le> j" by linarith
    then show ?thesis
    proof cases
      case 1
      then show ?thesis using row j by (simp add: w nth_append)
    next
      case 2
      then have "j - ptr < length keys" using lk by simp
      then show ?thesis using 2 row j fit by (simp add: w nth_append length_col col_def)
    next
      case 3
      then have "ptr + b + (j - ptr - b) = j" "\<not> j < ptr" "\<not> j - ptr < b" by simp_all
      then show ?thesis using 3 row j fit by (simp add: w nth_append length_col lk)
    qed
  qed
  also have "\<dots> = (if ptr \<le> j \<and> j < ptr + b then keys ! (j - ptr) else col x j) ! i"
    using i by (simp add: col_def lx)
  finally show "col (written x ptr keys) j ! i
                = (if ptr \<le> j \<and> j < ptr + b then keys ! (j - ptr) else col x j) ! i" .
qed

lemma cols_written:
  assumes x: "is_tensor c ncols x" and k: "is_tensor b c keys" and fit: "ptr + b \<le> ncols"
  shows "cols ncols (written x ptr keys)
         = take ptr (cols ncols x) @ keys @ drop (ptr + b) (cols ncols x)"
proof (rule nth_equalityI)
  have lk: "length keys = b"
    using k by (simp add: is_tensor_def)
  show "length (cols ncols (written x ptr keys))
        = length (take ptr (cols ncols x) @ keys @ drop (ptr + b) (cols ncols x))"
    using fit by (simp add: cols_def lk)
  fix j
  assume "j < length (cols ncols (written x ptr keys))"
  then have j: "j < ncols"
    by (simp add: cols_def)
  consider "j < ptr" | "ptr \<le> j" "j < ptr + b" | "ptr + b \<le> j" by linarith
  then show "cols ncols (written x ptr keys) ! j
             = (take ptr (cols ncols x) @ keys @ drop (ptr + b) (cols ncols x)) ! j"
  proof cases
    case 1
    then show ?thesis
      using j fit by (simp add: cols_def col_written [OF x k fit j] nth_append)
  next
    case 2
    then have "j - ptr < b" "\<not> j < ptr" by simp_all
    then show ?thesis
      using 2 j fit by (simp add: cols_def col_written [OF x k fit j] nth_append lk)
  next
    case 3
    then have "ptr + b + (j - ptr - b) = j" "\<not> j < ptr" "\<not> j - ptr < b" by simp_all
    then show ?thesis
      using 3 j fit by (simp add: cols_def col_written [OF x k fit j] nth_append lk)
  qed
qed

lemma enqueue_fits:
  assumes q: "is_tensor c (self_K s) (queue s)" and k: "is_tensor b c keys" and b: "0 < b"
    and dv: "b dvd self_K s" and fit: "queue_ptr s + b \<le> self_K s"
  shows "MoCov1_dequeue_and_enqueue s keys
         = (Inr (), s\<lparr>queue := written (queue s) (queue_ptr s) keys,
                      queue_ptr := (queue_ptr s + b) mod self_K s\<rparr>)"
proof -
  have lk: "length keys = b"
    using k by (simp add: is_tensor_def)
  have m: "self_K s mod b = 0"
    using dv by simp
  have K: "self_K s \<noteq> 0"
    using fit b by simp
  show ?thesis
    using b m K
    by (simp add: MoCov1_dequeue_and_enqueue_def Let_def lk setitem_cols_fits [OF q k b fit])
qed

lemma drop_append_le: "n \<le> length xs \<Longrightarrow> drop n (xs @ ys) = drop n xs @ ys"
  by simp

lemma length_cols: "length (cols ncols x) = ncols"
  by (simp add: cols_def)

text \<open>An enqueue drops the \<open>b\<close> oldest keys of the view and appends the batch.\<close>

lemma queue_view_enqueue:
  assumes q: "is_tensor c (self_K s) (queue s)" and k: "is_tensor b c keys"
    and fit: "queue_ptr s + b \<le> self_K s" and b: "0 < b"
  shows "queue_view (s\<lparr>queue := written (queue s) (queue_ptr s) keys,
                       queue_ptr := (queue_ptr s + b) mod self_K s\<rparr>)
         = drop b (queue_view s) @ keys"
proof -
  let ?K = "self_K s" and ?p = "queue_ptr s"
  let ?cs = "cols ?K (queue s)"
  let ?L = "take ?p ?cs @ keys @ drop (?p + b) ?cs"
  have lk: "length keys = b"
    using k by (simp add: is_tensor_def)
  have lcs: "length ?cs = ?K"
    by (rule length_cols)
  have lL: "length ?L = ?K"
    using fit by (simp add: lcs lk)
  have pm: "?p mod ?K = ?p"
    using fit b by simp
  have qv: "queue_view s = drop ?p ?cs @ take ?p ?cs"
    by (simp only: queue_view_def rotate_drop_take lcs pm)
  have "b \<le> length (drop ?p ?cs)"
    using fit by (simp add: lcs)
  then have "drop b (drop ?p ?cs @ take ?p ?cs) = drop b (drop ?p ?cs) @ take ?p ?cs"
    by (rule drop_append_le)
  then have old: "drop b (queue_view s) = drop (?p + b) ?cs @ take ?p ?cs"
    by (simp add: qv add.commute)
  have new: "rotate ((?p + b) mod ?K) ?L = drop (?p + b) ?cs @ take ?p ?cs @ keys"
  proof (cases "?p + b = ?K")
    case True
    then show ?thesis by (simp add: lcs)
  next
    case False
    then have lt: "?p + b < ?K" using fit by simp
    have t: "take (?p + b) ?L = take ?p ?cs @ keys"
      using lt by (simp add: lcs lk)
    have d: "drop (?p + b) ?L = drop (?p + b) ?cs"
      using lt by (simp add: lcs lk)
    show ?thesis
      using lt by (simp only: rotate_drop_take lL mod_less t d)
  qed
  have "queue_view (s\<lparr>queue := written (queue s) ?p keys, queue_ptr := (?p + b) mod ?K\<rparr>)
        = rotate ((?p + b) mod ?K) (cols ?K (written (queue s) ?p keys))"
    by (simp add: queue_view_def)
  also have "\<dots> = rotate ((?p + b) mod ?K) ?L"
    by (simp only: cols_written [OF q k fit])
  also have "\<dots> = drop (?p + b) ?cs @ take ?p ?cs @ keys"
    by (rule new)
  also have "\<dots> = drop b (queue_view s) @ keys"
    by (simp only: old append_assoc)
  finally show ?thesis .
qed

lemma fits_of_dvd:
  fixes b :: nat
  assumes "b dvd n" and "b dvd p" and "p < n"
  shows "p + b \<le> n"
proof -
  have "b dvd n - p" using assms by (simp add: dvd_diff_nat)
  moreover have "0 < n - p" using assms by simp
  ultimately have "b \<le> n - p" by (rule dvd_imp_le)
  then show ?thesis using assms by simp
qed

lemma enqueue_all_fifo:
  assumes "is_tensor c (self_K s) (queue s)" and "0 < b" and "b dvd self_K s"
    and "b dvd queue_ptr s" and "queue_ptr s < self_K s"
    and "list_all (is_tensor b c) Bs"
  shows "\<exists>s'. enqueue_all s Bs = (Inr (), s')
            \<and> self_K s' = self_K s \<and> is_tensor c (self_K s) (queue s')
            \<and> queue_ptr s' = (queue_ptr s + b * length Bs) mod self_K s
            \<and> queue_view s' = drop (b * length Bs) (queue_view s @ concat Bs)
            \<and> encoder_q s' = encoder_q s \<and> encoder_k s' = encoder_k s"
  using assms
proof (induction Bs arbitrary: s)
  case Nil
  then show ?case by simp
next
  case (Cons keys rest)
  let ?K = "self_K s"
  let ?s1 = "s\<lparr>queue := written (queue s) (queue_ptr s) keys,
                queue_ptr := (queue_ptr s + b) mod ?K\<rparr>"
  have k: "is_tensor b c keys" and r: "list_all (is_tensor b c) rest"
    using Cons.prems(6) by simp_all
  have fit: "queue_ptr s + b \<le> ?K"
    by (rule fits_of_dvd [OF Cons.prems(3,4,5)])
  have K: "0 < ?K" using Cons.prems(5) by simp
  have step: "MoCov1_dequeue_and_enqueue s keys = (Inr (), ?s1)"
    by (rule enqueue_fits [OF Cons.prems(1) k Cons.prems(2,3) fit])
  have v1: "queue_view ?s1 = drop b (queue_view s) @ keys"
    by (rule queue_view_enqueue [OF Cons.prems(1) k fit Cons.prems(2)])
  have q1: "is_tensor c (self_K ?s1) (queue ?s1)"
    using written_tensor [OF Cons.prems(1) k fit] by simp
  have d1: "b dvd queue_ptr ?s1"
    using Cons.prems(3,4) by (simp add: dvd_mod)
  have p1: "queue_ptr ?s1 < self_K ?s1"
    using K by simp
  from Cons.IH [OF q1 Cons.prems(2) _ d1 p1 r] Cons.prems(3)
  obtain s' where run: "enqueue_all ?s1 rest = (Inr (), s')"
    and K': "self_K s' = ?K" and q': "is_tensor c ?K (queue s')"
    and p': "queue_ptr s' = ((queue_ptr s + b) mod ?K + b * length rest) mod ?K"
    and v': "queue_view s' = drop (b * length rest) (queue_view ?s1 @ concat rest)"
    and e': "encoder_q s' = encoder_q s" "encoder_k s' = encoder_k s"
    by auto
  have lv: "length (queue_view s) = ?K"
    by (simp add: queue_view_def length_cols)
  have "b \<le> length (queue_view s)" using fit by (simp add: lv)
  then have "drop b (queue_view s @ keys @ concat rest) = (drop b (queue_view s) @ keys) @ concat rest"
    by (simp add: drop_append_le)
  then have "queue_view s' = drop (b * length rest) (drop b (queue_view s @ keys @ concat rest))"
    by (simp only: v' v1)
  then have "queue_view s' = drop (b * length rest + b) (queue_view s @ keys @ concat rest)"
    by (simp only: drop_drop)
  moreover have "b * length rest + b = b * length (keys # rest)"
    by simp
  moreover have "keys @ concat rest = concat (keys # rest)"
    by simp
  ultimately have v: "queue_view s' = drop (b * length (keys # rest)) (queue_view s @ concat (keys # rest))"
    by (simp only:)
  have p: "queue_ptr s' = (queue_ptr s + b * length (keys # rest)) mod ?K"
    by (simp add: p' mod_add_left_eq add.assoc)
  from step run K' q' p v e' show ?case by simp
qed

lemma drop_concat_uniform:
  "list_all (\<lambda>B. length B = b) Bs \<Longrightarrow> drop (b * n) (concat Bs) = concat (drop n Bs)"
proof (induction Bs arbitrary: n)
  case Nil
  then show ?case by simp
next
  case (Cons B Bs)
  then show ?case by (cases n) simp_all
qed

text \<open>
  C3, as the code has it. For every enqueue of a key batch of size \<open>b > 0\<close>, with \<open>b\<close>
  dividing the capacity \<open>K\<close> and the batch fitting below the end of the queue
  (\<open>ptr + b \<le> K\<close>): the call returns normally, the batch stands in the queue columns
  \<open>ptr, ..., ptr + b - 1\<close> in its order, every other column is unchanged and the pointer
  is \<open>(ptr + b) mod K\<close>. When moreover the pointer is a multiple of \<open>b\<close> (as it is at
  construction and after enqueues of size \<open>b\<close>), every run of at least \<open>K div b\<close>
  enqueues of batches of size \<open>b\<close> returns normally and leaves exactly the last
  \<open>K div b\<close> batches in the queue, in insertion order when the columns are read
  circularly from the pointer; every older batch is gone.
\<close>

theorem dequeue_and_enqueue_fifo:
  fixes s :: "'a moco"
  assumes q: "is_tensor c (self_K s) (queue s)" and b: "0 < b" and dv: "b dvd self_K s"
    and fit: "queue_ptr s + b \<le> self_K s"
  shows "(\<forall>keys. is_tensor b c keys \<longrightarrow>
            (\<exists>x'. MoCov1_dequeue_and_enqueue s keys
                     = (Inr (), s\<lparr>queue := x', queue_ptr := (queue_ptr s + b) mod self_K s\<rparr>)
                 \<and> is_tensor c (self_K s) x'
                 \<and> (\<forall>j<self_K s.
                       col x' j = (if queue_ptr s \<le> j \<and> j < queue_ptr s + b
                                   then keys ! (j - queue_ptr s) else col (queue s) j))))
       \<and> (b dvd queue_ptr s \<longrightarrow>
            (\<forall>Bs. list_all (is_tensor b c) Bs \<and> self_K s div b \<le> length Bs \<longrightarrow>
               (\<exists>s'. enqueue_all s Bs = (Inr (), s')
                    \<and> queue_ptr s' = (queue_ptr s + b * length Bs) mod self_K s
                    \<and> queue_view s' = concat (drop (length Bs - self_K s div b) Bs))))"
proof (intro conjI allI impI)
  fix keys :: "'a list list"
  assume k: "is_tensor b c keys"
  have "MoCov1_dequeue_and_enqueue s keys
        = (Inr (), s\<lparr>queue := written (queue s) (queue_ptr s) keys,
                     queue_ptr := (queue_ptr s + b) mod self_K s\<rparr>)"
    by (rule enqueue_fits [OF q k b dv fit])
  moreover have "is_tensor c (self_K s) (written (queue s) (queue_ptr s) keys)"
    by (rule written_tensor [OF q k fit])
  moreover have "\<forall>j<self_K s.
      col (written (queue s) (queue_ptr s) keys) j
        = (if queue_ptr s \<le> j \<and> j < queue_ptr s + b
           then keys ! (j - queue_ptr s) else col (queue s) j)"
    using col_written [OF q k fit] by blast
  ultimately show "\<exists>x'. MoCov1_dequeue_and_enqueue s keys
                     = (Inr (), s\<lparr>queue := x', queue_ptr := (queue_ptr s + b) mod self_K s\<rparr>)
                 \<and> is_tensor c (self_K s) x'
                 \<and> (\<forall>j<self_K s.
                       col x' j = (if queue_ptr s \<le> j \<and> j < queue_ptr s + b
                                   then keys ! (j - queue_ptr s) else col (queue s) j))"
    by blast
next
  fix Bs :: "'a list list list"
  assume dp: "b dvd queue_ptr s"
    and Bs: "list_all (is_tensor b c) Bs \<and> self_K s div b \<le> length Bs"
  let ?K = "self_K s" and ?n = "length Bs"
  have lt: "queue_ptr s < ?K" using fit b by simp
  from enqueue_all_fifo [OF q b dv dp lt conjunct1 [OF Bs]]
  obtain s' where run: "enqueue_all s Bs = (Inr (), s')"
    and p: "queue_ptr s' = (queue_ptr s + b * ?n) mod ?K"
    and v: "queue_view s' = drop (b * ?n) (queue_view s @ concat Bs)"
    by blast
  have lv: "length (queue_view s) = ?K"
    by (simp add: queue_view_def length_cols)
  have K: "?K = b * (?K div b)"
    using dv by simp
  have "b * (?K div b) \<le> b * ?n"
    using Bs by simp
  then have le: "?K \<le> b * ?n"
    using K by simp
  have "b * ?n - ?K = b * ?n - b * (?K div b)"
    using K by simp
  then have diff: "b * ?n - ?K = b * (?n - ?K div b)"
    by (simp add: diff_mult_distrib2)
  have uni: "list_all (\<lambda>B. length B = b) Bs"
    using Bs by (simp add: list_all_iff is_tensor_def)
  have "drop (b * ?n) (queue_view s @ concat Bs) = drop (b * ?n - ?K) (concat Bs)"
    using le by (simp add: lv)
  also have "\<dots> = concat (drop (?n - ?K div b) Bs)"
    by (simp only: diff drop_concat_uniform [OF uni])
  finally have "queue_view s' = concat (drop (?n - ?K div b) Bs)"
    using v by simp
  with run p show "\<exists>s'. enqueue_all s Bs = (Inr (), s')
                    \<and> queue_ptr s' = (queue_ptr s + b * length Bs) mod self_K s
                    \<and> queue_view s' = concat (drop (length Bs - self_K s div b) Bs)"
    by blast
qed

theorem dequeue_and_enqueue_fifo_witness:
  "is_tensor 2 (self_K demo) (queue demo)
   \<and> (2::nat) dvd self_K demo
   \<and> queue_ptr demo + 2 \<le> self_K demo
   \<and> 2 dvd queue_ptr demo
   \<and> is_tensor 2 2 [[5, 6], [7, 8 :: real]]
   \<and> list_all (is_tensor 2 2) [[[5, 6], [7, 8]], [[9, 10], [11, 12 :: real]]]
   \<and> (\<exists>x'. MoCov1_dequeue_and_enqueue demo [[5, 6], [7, 8]]
               = (Inr (), demo\<lparr>queue := x', queue_ptr := 2\<rparr>)
           \<and> col x' 0 = [5, 6] \<and> col x' 1 = [7, 8]
           \<and> col x' 2 = col (queue demo) 2 \<and> col x' 3 = col (queue demo) 3)
   \<and> (\<exists>s'. enqueue_all demo [[[5, 6], [7, 8]], [[9, 10], [11, 12]]] = (Inr (), s')
           \<and> queue_ptr s' = 0
           \<and> queue_view s' = [[5, 6], [7, 8], [9, 10], [11, 12]])"
proof -
  have h1: "is_tensor 2 (self_K demo) (queue demo)"
    by (simp add: demo_def is_tensor_def)
  have h2: "(2::nat) dvd self_K demo"
    by (simp add: demo_def)
  have h3: "queue_ptr demo + 2 \<le> self_K demo"
    by (simp add: demo_def)
  have h4: "2 dvd queue_ptr demo"
    by (simp add: demo_def)
  have k: "is_tensor 2 2 [[5, 6], [7, 8 :: real]]"
    by (simp add: is_tensor_def)
  have Bs: "list_all (is_tensor 2 2) [[[5, 6], [7, 8]], [[9, 10], [11, 12 :: real]]]"
    by (simp add: is_tensor_def)
  have h0: "(0::nat) < 2"
    by simp
  note t = dequeue_and_enqueue_fifo [OF h1 h0 h2 h3]
  from conjunct1 [OF t] k obtain x' where
    run: "MoCov1_dequeue_and_enqueue demo [[5, 6], [7, 8]]
          = (Inr (), demo\<lparr>queue := x', queue_ptr := (queue_ptr demo + 2) mod self_K demo\<rparr>)"
    and cs: "\<forall>j<self_K demo. col x' j
               = (if queue_ptr demo \<le> j \<and> j < queue_ptr demo + 2
                  then [[5, 6], [7, 8]] ! (j - queue_ptr demo) else col (queue demo) j)"
    by blast
  have one: "\<exists>x'. MoCov1_dequeue_and_enqueue demo [[5, 6], [7, 8]]
               = (Inr (), demo\<lparr>queue := x', queue_ptr := 2\<rparr>)
           \<and> col x' 0 = [5, 6] \<and> col x' 1 = [7, 8]
           \<and> col x' 2 = col (queue demo) 2 \<and> col x' 3 = col (queue demo) 3"
  proof (intro exI conjI)
    show "MoCov1_dequeue_and_enqueue demo [[5, 6], [7, 8]]
          = (Inr (), demo\<lparr>queue := x', queue_ptr := 2\<rparr>)"
      using run by (simp add: demo_def)
    show "col x' 0 = [5, 6]" using cs [rule_format, of 0] by (simp add: demo_def)
    show "col x' 1 = [7, 8]" using cs [rule_format, of 1] by (simp add: demo_def)
    show "col x' 2 = col (queue demo) 2" using cs [rule_format, of 2] by (simp add: demo_def)
    show "col x' 3 = col (queue demo) 3" using cs [rule_format, of 3] by (simp add: demo_def)
  qed
  have n: "self_K demo div 2 \<le> length [[[5, 6], [7, 8]], [[9, 10], [11, 12 :: real]]]"
    by (simp add: demo_def)
  from conjunct2 [OF t, rule_format, OF h4 conjI [OF Bs n]]
  obtain s' where run2: "enqueue_all demo [[[5, 6], [7, 8]], [[9, 10], [11, 12]]] = (Inr (), s')"
    and p2: "queue_ptr s' = (queue_ptr demo + 2 * length [[[5, 6], [7, 8]], [[9, 10], [11, 12 :: real]]])
                              mod self_K demo"
    and v2: "queue_view s' = concat (drop (length [[[5, 6], [7, 8]], [[9, 10], [11, 12 :: real]]]
                                             - self_K demo div 2)
                                        [[[5, 6], [7, 8]], [[9, 10], [11, 12]]])"
    by blast
  have "queue_ptr s' = 0"
    using p2 by (simp add: demo_def)
  moreover have "queue_view s' = [[5, 6], [7, 8], [9, 10], [11, 12]]"
    using v2 by (simp add: demo_def)
  ultimately have two: "\<exists>s'. enqueue_all demo [[[5, 6], [7, 8]], [[9, 10], [11, 12]]] = (Inr (), s')
           \<and> queue_ptr s' = 0
           \<and> queue_view s' = [[5, 6], [7, 8], [9, 10], [11, 12]]"
    using run2 by blast
  from h1 h2 h3 h4 k Bs one two show ?thesis
    by blast
qed

text \<open>
  C3 as stated fails when the write does not fit. On a queue of capacity 4, an
  enqueue of 2 keys moves the pointer to 2; a following enqueue of 4 keys (4 divides
  4) passes the assertion, meets the slice \<^verbatim>\<open>queue[:, 2:6]\<close>, which Python clamps to two
  columns, and raises RuntimeError: nothing is written and the pointer stays at 2.
\<close>

theorem dequeue_and_enqueue_fifo_counterexample:
  "MoCov1_dequeue_and_enqueue demo [[5, 6], [7, 8]]
     = (Inr (), demo\<lparr>queue := [[5, 7, 1, 0], [6, 8, 0, 1]], queue_ptr := 2\<rparr>)
   \<and> self_K (demo\<lparr>queue := [[5, 7, 1, 0], [6, 8, 0, 1]], queue_ptr := 2\<rparr>)
       mod length [[1, 1], [2, 2], [3, 3], [4, 4 :: real]] = 0
   \<and> MoCov1_dequeue_and_enqueue (demo\<lparr>queue := [[5, 7, 1, 0], [6, 8, 0, 1]], queue_ptr := 2\<rparr>)
       [[1, 1], [2, 2], [3, 3], [4, 4]]
     = (Inl RuntimeError, demo\<lparr>queue := [[5, 7, 1, 0], [6, 8, 0, 1]], queue_ptr := 2\<rparr>)"
  by code_simp

subsection \<open>C7: where the divisibility of the capacity is checked\<close>

lemma init_loop_same_shapes:
  "same_shapes qs ks \<Longrightarrow>
   init_loop qs ks = Inr (map2 (\<lambda>q k. k\<lparr>data := data q, requires_grad := False\<rparr>) qs ks)"
  unfolding same_shapes_def
  by (induction qs ks rule: list_all2_induct) simp_all

lemma init_loop_error: "init_loop qs ks = Inl e \<Longrightarrow> e = RuntimeError"
  by (induction qs ks rule: init_loop.induct) (auto split: if_splits sum.splits)

text \<open>
  C7, as the code has it. The constructor takes no batch size and checks nothing about
  the capacity: it returns a model for every \<open>K\<close> (the two networks having the same
  parameter shapes) and never raises AssertionError. The divisibility is checked by
  the assertion of \<^verbatim>\<open>_dequeue_and_enqueue\<close>, at every enqueue: for a non-empty batch
  whose size does not divide \<open>K\<close> the call raises AssertionError and leaves the object,
  its queue and pointer included, as it was.
\<close>

theorem divisibility_checked_at_enqueue:
  "(same_shapes fresh_q fresh_k \<longrightarrow>
      (\<exists>s0. MoCov1_init K m T fresh_q fresh_k randn = Inr s0 \<and> self_K s0 = K \<and> queue_ptr s0 = 0))
   \<and> MoCov1_init K m T fresh_q fresh_k randn \<noteq> Inl AssertionError
   \<and> (keys \<noteq> [] \<and> self_K s mod length keys \<noteq> 0 \<longrightarrow>
        MoCov1_dequeue_and_enqueue s keys = (Inl AssertionError, s))"
proof (intro conjI impI)
  assume "same_shapes fresh_q fresh_k"
  then show "\<exists>s0. MoCov1_init K m T fresh_q fresh_k randn = Inr s0 \<and> self_K s0 = K \<and> queue_ptr s0 = 0"
    by (simp add: MoCov1_init_def init_loop_same_shapes)
next
  show "MoCov1_init K m T fresh_q fresh_k randn \<noteq> Inl AssertionError"
    by (auto simp: MoCov1_init_def split: sum.splits dest: init_loop_error)
next
  assume "keys \<noteq> [] \<and> self_K s mod length keys \<noteq> 0"
  then show "MoCov1_dequeue_and_enqueue s keys = (Inl AssertionError, s)"
    by (simp add: MoCov1_dequeue_and_enqueue_def Let_def)
qed

lemma odd_model_init:
  "MoCov1_init 3 (1 / 2) (1 / 10)
     [\<lparr>data = [1, 3], requires_grad = True\<rparr>] [\<lparr>data = [0, 0], requires_grad = True\<rparr>]
     [[1, 0, 0], [0, 1, 1]] = Inr odd_model"
proof -
  have "[0..<3] = [0, 1, 2]"
    by (simp add: upt_rec)
  then show ?thesis
    by (simp add: MoCov1_init_def F_normalize_dim0_def l2_norm_def col_def odd_model_def)
qed

theorem divisibility_checked_at_enqueue_witness:
  "same_shapes [\<lparr>data = [1, 3 :: real], requires_grad = True\<rparr>]
               [\<lparr>data = [0, 0], requires_grad = True\<rparr>]
   \<and> (\<exists>s0. MoCov1_init 3 (1 / 2) (1 / 10)
              [\<lparr>data = [1, 3], requires_grad = True\<rparr>] [\<lparr>data = [0, 0], requires_grad = True\<rparr>]
              [[1, 0, 0], [0, 1, 1]] = Inr s0 \<and> self_K s0 = 3 \<and> queue_ptr s0 = 0)
   \<and> [[1, 0], [0, 1 :: real]] \<noteq> []
   \<and> self_K odd_model mod length [[1, 0], [0, 1 :: real]] \<noteq> 0
   \<and> MoCov1_dequeue_and_enqueue odd_model [[1, 0], [0, 1]] = (Inl AssertionError, odd_model)"
proof -
  have h1: "same_shapes [\<lparr>data = [1, 3 :: real], requires_grad = True\<rparr>]
                        [\<lparr>data = [0, 0], requires_grad = True\<rparr>]"
    by (simp add: same_shapes_def)
  have h2: "[[1, 0], [0, 1 :: real]] \<noteq> [] \<and> self_K odd_model mod length [[1, 0], [0, 1 :: real]] \<noteq> 0"
    by code_simp
  note t = divisibility_checked_at_enqueue
    [of "[\<lparr>data = [1, 3], requires_grad = True\<rparr>]" "[\<lparr>data = [0, 0], requires_grad = True\<rparr>]"
        3 "1 / 2" "1 / 10" "[[1, 0, 0], [0, 1, 1]]" "[[1, 0], [0, 1]]" odd_model]
  from conjunct1 [OF t, rule_format, OF h1] conjunct2 [OF conjunct2 [OF t], rule_format, OF h2] h1 h2
  show ?thesis
    by blast
qed

text \<open>
  C7 as stated fails: the constructor returns a model of capacity 3 without any
  error, and the first training step on it, with one image per view (an enqueue of 2
  keys), raises AssertionError in \<^verbatim>\<open>_dequeue_and_enqueue\<close>, after the momentum update
  and both losses were computed.
\<close>

theorem divisibility_checked_at_enqueue_counterexample:
  "MoCov1_init 3 (1 / 2) (1 / 10)
     [\<lparr>data = [1, 3], requires_grad = True\<rparr>] [\<lparr>data = [0, 0], requires_grad = True\<rparr>]
     [[1, 0, 0], [0, 1, 1]] = Inr odd_model
   \<and> MoCov1_forward const_net const_net [0] [0] odd_model [''view 1''] [''view 2'']
       = (Inl AssertionError, odd_model)"
proof -
  have u: "[0..<3] = [0, 1, 2]"
    by (simp add: upt_rec)
  have m: "MoCov1_momentum_update_key_encoder odd_model = (Inr (), odd_model)"
    by (simp add: MoCov1_momentum_update_key_encoder_def odd_model_def tensor_add_def tensor_mul_def)
  have sh: "MoCov1_batch_shuffle_single_gpu [0] [v] = Inr ([v], [0])" for v :: string
    by (simp add: MoCov1_batch_shuffle_single_gpu_def index_select_def argsort_def)
  have c: "\<exists>loss. MoCov1_contrastive_loss const_net const_net [0] odd_model [v] [w]
                  = Inr (loss, [[1, 0]], [[1, 0]])" for v w :: string
    by (simp add: MoCov1_contrastive_loss_def sh MoCov1_batch_unshuffle_single_gpu_def
        index_select_def const_net_def MoCov1_logits_def einsum_nc_nc_def einsum_nc_ck_def
        cross_entropy_def odd_model_def u Let_def)
  from c obtain l12 where c12: "MoCov1_contrastive_loss const_net const_net [0] odd_model
      [''view 1''] [''view 2''] = Inr (l12, [[1, 0]], [[1, 0]])"
    by blast
  from c obtain l21 where c21: "MoCov1_contrastive_loss const_net const_net [0] odd_model
      [''view 2''] [''view 1''] = Inr (l21, [[1, 0]], [[1, 0]])"
    by blast
  have e: "MoCov1_dequeue_and_enqueue odd_model [[1, 0], [1, 0]] = (Inl AssertionError, odd_model)"
    by code_simp
  have "MoCov1_forward const_net const_net [0] [0] odd_model [''view 1''] [''view 2'']
        = (Inl AssertionError, odd_model)"
    by (simp add: MoCov1_forward_def m c12 c21 cat_dim0_def e)
  with odd_model_init show ?thesis
    by simp
qed

subsection \<open>C2: the key encoder is initialised from the query encoder and then frozen\<close>

lemma momentum_update_same_shapes:
  "same_shapes (encoder_q s) (encoder_k s) \<Longrightarrow>
   MoCov1_momentum_update_key_encoder s = (Inr (), s\<lparr>encoder_k := key_momentum_rule s\<rparr>)"
  by (simp add: MoCov1_momentum_update_key_encoder_def momentum_loop_same_shapes
      key_momentum_rule_def)

lemma key_momentum_rule_shapes:
  "same_shapes (encoder_q s) (encoder_k s) \<Longrightarrow> same_shapes (encoder_q s) (key_momentum_rule s)"
  unfolding same_shapes_def key_momentum_rule_def
  by (induction rule: list_all2_induct) (simp_all add: length_ema)

lemma key_momentum_rule_frozen:
  "same_shapes (encoder_q s) (encoder_k s) \<Longrightarrow>
   list_all (\<lambda>k. \<not> requires_grad k) (encoder_k s) \<Longrightarrow>
   list_all (\<lambda>k. \<not> requires_grad k) (key_momentum_rule s)"
  unfolding same_shapes_def key_momentum_rule_def
  by (induction rule: list_all2_induct) simp_all

lemma enqueue_encoders:
  "MoCov1_dequeue_and_enqueue s keys = (r, s') \<Longrightarrow>
   encoder_q s' = encoder_q s \<and> encoder_k s' = encoder_k s"
  by (auto simp: MoCov1_dequeue_and_enqueue_def Let_def split: if_splits sum.splits)

lemma forward_encoders:
  assumes "same_shapes (encoder_q s) (encoder_k s)"
    and "MoCov1_forward fwd_q fwd_k idx_12 idx_21 s im1 im2 = (r, s')"
  shows "encoder_q s' = encoder_q s \<and> encoder_k s' = key_momentum_rule s"
  using assms(2) enqueue_encoders [of "s\<lparr>encoder_k := key_momentum_rule s\<rparr>"]
  by (auto simp: MoCov1_forward_def momentum_update_same_shapes [OF assms(1)] Let_def
      split: sum.splits prod.splits)

lemma gradient_update_frozen:
  assumes "list_all (\<lambda>k. \<not> requires_grad k) ks"
  shows "gradient_update upd ks = ks"
proof (rule nth_equalityI)
  show "length (gradient_update upd ks) = length ks"
    by (simp add: gradient_update_def)
  fix i
  assume "i < length (gradient_update upd ks)"
  then have i: "i < length ks"
    by (simp add: gradient_update_def)
  then have "\<not> requires_grad (ks ! i)"
    using assms by (simp add: list_all_length)
  then show "gradient_update upd ks ! i = ks ! i"
    using i by (simp add: gradient_update_def)
qed

lemma gradient_update_shapes:
  assumes "same_shapes qs ks"
  shows "same_shapes (gradient_update upd qs) ks"
proof -
  have l: "length qs = length ks"
    using assms by (simp add: same_shapes_def list_all2_lengthD)
  have "length (data (gradient_update upd qs ! i)) = length (data (ks ! i))" if "i < length qs" for i
    using that list_all2_nthD [OF assms [unfolded same_shapes_def] that]
    by (simp add: gradient_update_def)
  then show ?thesis
    using l by (simp add: same_shapes_def list_all2_conv_all_nth gradient_update_def)
qed

text \<open>The invariant of a constructed model.\<close>

lemma moco_step_frozen:
  assumes inv: "same_shapes (encoder_q s) (encoder_k s)"
      "list_all (\<lambda>k. \<not> requires_grad k) (encoder_k s)"
    and step: "moco_step fwd_q fwd_k s s'"
  shows "same_shapes (encoder_q s') (encoder_k s')
         \<and> list_all (\<lambda>k. \<not> requires_grad k) (encoder_k s')
         \<and> (encoder_k s' = encoder_k s \<or> encoder_k s' = key_momentum_rule s)"
  using step
proof cases
  case (step_forward idx_12 idx_21 im1 im2 r)
  from forward_encoders [OF inv(1) step_forward]
  show ?thesis
    using key_momentum_rule_shapes [OF inv(1)] key_momentum_rule_frozen [OF inv] by simp
next
  case (step_momentum r)
  then have "s' = s\<lparr>encoder_k := key_momentum_rule s\<rparr>"
    by (simp add: momentum_update_same_shapes [OF inv(1)])
  then show ?thesis
    using key_momentum_rule_shapes [OF inv(1)] key_momentum_rule_frozen [OF inv] by simp
next
  case (step_enqueue keys r)
  from enqueue_encoders [OF step_enqueue] show ?thesis
    using inv by simp
next
  case (step_gradient upd_q upd_k)
  then show ?thesis
    using inv gradient_update_frozen [OF inv(2)] gradient_update_shapes [OF inv(1)]
    by (simp add: gradient_step_def)
qed

lemma reachable_frozen:
  assumes "rtranclp (moco_step fwd_q fwd_k) s0 s"
    and "same_shapes (encoder_q s0) (encoder_k s0)"
    and "list_all (\<lambda>k. \<not> requires_grad k) (encoder_k s0)"
  shows "same_shapes (encoder_q s) (encoder_k s) \<and> list_all (\<lambda>k. \<not> requires_grad k) (encoder_k s)"
  using assms
proof (induction rule: rtranclp_induct)
  case base
  then show ?case by simp
next
  case (step y z)
  then show ?case
    using moco_step_frozen [of y fwd_q fwd_k z] by blast
qed

lemma list_all2_frozen:
  "list_all2 (\<lambda>q k. data k = data q \<and> \<not> requires_grad k) qs ks \<Longrightarrow>
   list_all (\<lambda>k. \<not> requires_grad k) ks"
  by (induction rule: list_all2_induct) simp_all

lemma init_keys:
  "same_shapes qs ks \<Longrightarrow>
   list_all2 (\<lambda>q k. data k = data q \<and> \<not> requires_grad k) qs
     (map2 (\<lambda>q k. k\<lparr>data := data q, requires_grad := False\<rparr>) qs ks)"
  unfolding same_shapes_def
  by (induction rule: list_all2_induct) simp_all

text \<open>
  C2. The constructor, given two networks of the same parameter shapes, returns a
  model in which every key parameter has the entries of the corresponding query
  parameter and is marked non-trainable. In every state the model reaches afterwards,
  by calls of its methods (whether they return or raise) and by gradient steps, every
  key parameter is still non-trainable; and each such step either leaves the key
  parameters as they are or replaces them by what the momentum rule prescribes. A
  gradient step in particular leaves them as they are.
\<close>

theorem key_encoder_frozen:
  assumes "same_shapes fresh_q fresh_k"
  shows "\<exists>s0. MoCov1_init K m T fresh_q fresh_k randn = Inr s0
           \<and> encoder_q s0 = fresh_q
           \<and> list_all2 (\<lambda>q k. data k = data q \<and> \<not> requires_grad k) (encoder_q s0) (encoder_k s0)
           \<and> (\<forall>s s'. rtranclp (moco_step fwd_q fwd_k) s0 s \<and> moco_step fwd_q fwd_k s s' \<longrightarrow>
                  list_all (\<lambda>k. \<not> requires_grad k) (encoder_k s')
                \<and> (encoder_k s' = encoder_k s \<or> encoder_k s' = key_momentum_rule s))
           \<and> (\<forall>s upd_q upd_k. rtranclp (moco_step fwd_q fwd_k) s0 s \<longrightarrow>
                  encoder_k (gradient_step upd_q upd_k s) = encoder_k s)"
proof -
  let ?ks = "map2 (\<lambda>q k. k\<lparr>data := data q, requires_grad := False\<rparr>) fresh_q fresh_k"
  let ?s0 = "\<lparr>self_K = K, self_m = m, self_T = T, encoder_q = fresh_q, encoder_k = ?ks,
              queue = F_normalize_dim0 K randn, queue_ptr = 0\<rparr>"
  have run: "MoCov1_init K m T fresh_q fresh_k randn = Inr ?s0"
    by (simp add: MoCov1_init_def init_loop_same_shapes [OF assms])
  have eq: "list_all2 (\<lambda>q k. data k = data q \<and> \<not> requires_grad k) fresh_q ?ks"
    by (rule init_keys [OF assms])
  have sh0: "same_shapes (encoder_q ?s0) (encoder_k ?s0)"
    using eq by (auto simp: same_shapes_def elim!: list_all2_mono)
  have fr0: "list_all (\<lambda>k. \<not> requires_grad k) (encoder_k ?s0)"
    using eq by (simp add: list_all2_frozen)
  have steps: "list_all (\<lambda>k. \<not> requires_grad k) (encoder_k s')
               \<and> (encoder_k s' = encoder_k s \<or> encoder_k s' = key_momentum_rule s)"
    if "rtranclp (moco_step fwd_q fwd_k) ?s0 s \<and> moco_step fwd_q fwd_k s s'" for s s'
    using reachable_frozen [OF conjunct1 [OF that] sh0 fr0] moco_step_frozen [OF _ _ conjunct2 [OF that]]
    by blast
  have grad: "encoder_k (gradient_step upd_q upd_k s) = encoder_k s"
    if "rtranclp (moco_step fwd_q fwd_k) ?s0 s" for s upd_q upd_k
    using reachable_frozen [OF that sh0 fr0] by (simp add: gradient_step_def gradient_update_frozen)
  from run eq steps grad show ?thesis
    by (intro exI [of _ ?s0]) simp
qed

theorem key_encoder_frozen_witness:
  "same_shapes [\<lparr>data = [1, 3 :: real], requires_grad = True\<rparr>]
               [\<lparr>data = [0, 0], requires_grad = True\<rparr>]
   \<and> MoCov1_init 3 (1 / 2) (1 / 10)
        [\<lparr>data = [1, 3], requires_grad = True\<rparr>] [\<lparr>data = [0, 0], requires_grad = True\<rparr>]
        [[1, 0, 0], [0, 1, 1]] = Inr odd_model
   \<and> list_all2 (\<lambda>q k. data k = data q \<and> \<not> requires_grad k)
        (encoder_q odd_model) (encoder_k odd_model)
   \<and> moco_step (const_net :: real param list \<Rightarrow> string list \<Rightarrow> real list list) const_net
        odd_model (gradient_step (\<lambda>i j v. v + 1) (\<lambda>i j v. v + 1) odd_model)
   \<and> encoder_q (gradient_step (\<lambda>i j v. v + 1) (\<lambda>i j v. v + 1) odd_model)
       = [\<lparr>data = [2, 4], requires_grad = True\<rparr>]
   \<and> encoder_k (gradient_step (\<lambda>i j v. v + 1) (\<lambda>i j v. v + 1) odd_model)
       = [\<lparr>data = [1, 3], requires_grad = False\<rparr>]"
proof -
  let ?net = "const_net :: real param list \<Rightarrow> string list \<Rightarrow> real list list"
  let ?g = "gradient_step (\<lambda>i j v. v + 1) (\<lambda>i j v. v + 1) odd_model"
  have h: "same_shapes [\<lparr>data = [1, 3 :: real], requires_grad = True\<rparr>]
                       [\<lparr>data = [0, 0], requires_grad = True\<rparr>]"
    by (simp add: same_shapes_def)
  from key_encoder_frozen [OF h, of 3 "1 / 2" "1 / 10" "[[1, 0, 0], [0, 1, 1]]" ?net ?net]
  obtain s0 where run: "MoCov1_init 3 (1 / 2) (1 / 10)
        [\<lparr>data = [1, 3], requires_grad = True\<rparr>] [\<lparr>data = [0, 0], requires_grad = True\<rparr>]
        [[1, 0, 0], [0, 1, 1]] = Inr s0"
    and eq: "list_all2 (\<lambda>q k. data k = data q \<and> \<not> requires_grad k) (encoder_q s0) (encoder_k s0)"
    and grad: "\<forall>s upd_q upd_k. rtranclp (moco_step ?net ?net) s0 s \<longrightarrow>
                  encoder_k (gradient_step upd_q upd_k s) = encoder_k s"
    by blast
  have s0: "s0 = odd_model"
    using run odd_model_init by simp
  have st: "moco_step ?net ?net odd_model ?g"
    by (rule step_gradient)
  have "rtranclp (moco_step ?net ?net) s0 odd_model"
    using s0 by simp
  with grad have "encoder_k ?g = encoder_k odd_model"
    by blast
  then have k: "encoder_k ?g = [\<lparr>data = [1, 3], requires_grad = False\<rparr>]"
    by (simp add: odd_model_def)
  have "[0..<2] = [0, 1]"
    by (simp add: upt_rec)
  then have q: "encoder_q ?g = [\<lparr>data = [2, 4], requires_grad = True\<rparr>]"
    by (simp add: gradient_step_def gradient_update_def odd_model_def)
  from h run eq st k q show ?thesis
    unfolding s0 by blast
qed

subsection \<open>C5: the logits and the loss\<close>

lemma einsum_nc_nc_tensor:
  assumes "is_tensor n c q" and "is_tensor n c k"
  shows "einsum_nc_nc q k = Inr (map2 dot q k)"
proof -
  have "list_all2 (\<lambda>a b. length a = length b) q k"
    using assms is_tensor_row [OF assms(1)] is_tensor_row [OF assms(2)]
    by (simp add: list_all2_conv_all_nth is_tensor_def)
  then show ?thesis
    by (simp add: einsum_nc_nc_def)
qed

lemma einsum_nc_ck_tensor:
  assumes "is_tensor n c q" and "is_tensor c ncols x"
  shows "einsum_nc_ck q ncols x = Inr (map (\<lambda>row. map (\<lambda>j. dot row (col x j)) [0..<ncols]) q)"
  using assms by (simp add: einsum_nc_ck_def is_tensor_def)

lemma logits_tensor:
  assumes q: "is_tensor n c q" and k: "is_tensor n c k" and x: "is_tensor c ncols x"
  shows "\<exists>L. MoCov1_logits T q k ncols x = Inr L \<and> is_tensor n (1 + ncols) L
           \<and> (\<forall>i<n. L ! i ! 0 = dot (q ! i) (k ! i) / T
                   \<and> (\<forall>j<ncols. L ! i ! (1 + j) = dot (q ! i) (col x j) / T))"
proof -
  let ?pos = "map2 dot q k"
  let ?neg = "map (\<lambda>row. map (\<lambda>j. dot row (col x j)) [0..<ncols]) q"
  let ?L = "map (map (\<lambda>v. v / T)) (map2 (\<lambda>p ns. p # ns) ?pos ?neg)"
  have lq: "length q = n" and lk: "length k = n"
    using q k by (simp_all add: is_tensor_def)
  have run: "MoCov1_logits T q k ncols x = Inr ?L"
    by (simp add: MoCov1_logits_def einsum_nc_nc_tensor [OF q k] einsum_nc_ck_tensor [OF q x])
  have row: "?L ! i = (dot (q ! i) (k ! i) / T) # map (\<lambda>j. dot (q ! i) (col x j) / T) [0..<ncols]"
    if "i < n" for i
    using that by (simp add: lq lk)
  have len: "length ?L = n"
    by (simp add: lq lk)
  have "is_tensor n (1 + ncols) ?L"
    unfolding is_tensor_def list_all_length using len row by simp
  moreover have "\<forall>i<n. ?L ! i ! 0 = dot (q ! i) (k ! i) / T
                   \<and> (\<forall>j<ncols. ?L ! i ! (1 + j) = dot (q ! i) (col x j) / T)"
    using row by simp
  ultimately show ?thesis
    using run by blast
qed

lemma cross_entropy_label0:
  assumes "is_tensor n (1 + ncols) L" and "0 < n"
  shows "cross_entropy L (replicate n 0) = Inr (Some (spec_loss L))"
proof -
  have l: "length L = n"
    using assms by (simp add: is_tensor_def)
  have ne: "L \<noteq> []"
    using l assms(2) by auto
  have rows: "list_all2 (\<lambda>row y. y < length row) L (replicate n 0)"
    using is_tensor_row [OF assms(1)] by (simp add: list_all2_conv_all_nth l)
  have "map2 (\<lambda>row y. ln (sum_list (map exp row)) - row ! y) L (replicate n 0)
        = map (\<lambda>row. ln (sum_list (map exp row)) - row ! 0) L"
    by (rule nth_equalityI) (simp_all add: l)
  then show ?thesis
    using rows ne by (simp add: cross_entropy_def spec_loss_def l)
qed

lemma dot_unit:
  assumes "l2_norm v = 1"
  shows "dot v v = 1"
proof -
  have "dot v v = sum_list (map (\<lambda>x. x * x) v)"
    by (simp add: dot_def zip_same_conv_map comp_def)
  then show ?thesis
    using assms by (simp add: l2_norm_def)
qed

lemma key_features_tensor:
  assumes perm: "is_randperm (length im_k) idx" and ek: "embeds c fwd_k"
  shows "MoCov1_batch_shuffle_single_gpu idx im_k = Inr (map (\<lambda>i. im_k ! i) idx, argsort idx)"
    and "MoCov1_batch_unshuffle_single_gpu (fwd_k ps (map (\<lambda>i. im_k ! i) idx)) (argsort idx)
         = Inr (map (\<lambda>j. fwd_k ps (map (\<lambda>i. im_k ! i) idx) ! j) (argsort idx))"
    and "is_tensor (length im_k) c (map (\<lambda>j. fwd_k ps (map (\<lambda>i. im_k ! i) idx) ! j) (argsort idx))"
proof -
  let ?y = "fwd_k ps (map (\<lambda>i. im_k ! i) idx)"
  have li: "length idx = length im_k"
    by (rule randperm_length [OF perm])
  have t: "is_tensor (length im_k) c ?y"
    using ek [unfolded embeds_def, rule_format, of "map (\<lambda>i. im_k ! i) idx" ps] by (simp add: li)
  then have ly: "length ?y = length im_k"
    by (simp add: is_tensor_def)
  show "MoCov1_batch_shuffle_single_gpu idx im_k = Inr (map (\<lambda>i. im_k ! i) idx, argsort idx)"
    by (simp add: MoCov1_batch_shuffle_single_gpu_def index_select_randperm [OF perm])
  show "MoCov1_batch_unshuffle_single_gpu ?y (argsort idx) = Inr (map (\<lambda>j. ?y ! j) (argsort idx))"
    unfolding MoCov1_batch_unshuffle_single_gpu_def
    by (rule index_select_argsort [OF perm ly])
  have "length (?y ! j) = c" if "j \<in> set (argsort idx)" for j
    using that is_tensor_row [OF t, of j] by (simp add: argsort_set li)
  then show "is_tensor (length im_k) c (map (\<lambda>j. ?y ! j) (argsort idx))"
    by (simp add: is_tensor_def argsort_length li list_all_iff)
qed

lemma contrastive_loss_run:
  assumes perm: "is_randperm (length im_k) idx_shuffle"
    and eq: "embeds c fwd_q" and ek: "embeds c fwd_k"
    and nq: "length im_q = n" and nk: "length im_k = n" and n: "0 < n"
    and x: "is_tensor c (self_K s) (queue s)" and T: "self_T s \<noteq> 0"
  shows "\<exists>L. is_tensor n c (fwd_q (encoder_q s) im_q)
              \<and> is_tensor n c (key_features fwd_k idx_shuffle s im_k)
              \<and> MoCov1_logits (self_T s) (fwd_q (encoder_q s) im_q)
                   (key_features fwd_k idx_shuffle s im_k) (self_K s) (queue s) = Inr L
              \<and> MoCov1_contrastive_loss fwd_q fwd_k idx_shuffle s im_q im_k
                  = Inr (Some (spec_loss L), fwd_q (encoder_q s) im_q,
                         key_features fwd_k idx_shuffle s im_k)"
proof -
  let ?Q = "fwd_q (encoder_q s) im_q"
  let ?Kf = "key_features fwd_k idx_shuffle s im_k"
  have tq: "is_tensor n c ?Q"
    using eq [unfolded embeds_def, rule_format, of im_q "encoder_q s"] by (simp add: nq)
  have tk: "is_tensor n c ?Kf"
    using key_features_tensor(3) [OF perm ek, of "encoder_k s"] by (simp add: key_features_def nk)
  from logits_tensor [OF tq tk x, of "self_T s"]
  obtain L where run: "MoCov1_logits (self_T s) ?Q ?Kf (self_K s) (queue s) = Inr L"
    and t: "is_tensor n (1 + self_K s) L"
    by blast
  have l: "length L = n"
    using t by (simp add: is_tensor_def)
  have "MoCov1_contrastive_loss fwd_q fwd_k idx_shuffle s im_q im_k = Inr (Some (spec_loss L), ?Q, ?Kf)"
    using T
    by (simp add: MoCov1_contrastive_loss_def Let_def key_features_tensor(1,2) [OF perm ek]
        key_features_def [symmetric] run l cross_entropy_label0 [OF t n])
  with tq tk run show "\<exists>L. is_tensor n c ?Q \<and> is_tensor n c ?Kf
              \<and> MoCov1_logits (self_T s) ?Q ?Kf (self_K s) (queue s) = Inr L
              \<and> MoCov1_contrastive_loss fwd_q fwd_k idx_shuffle s im_q im_k
                  = Inr (Some (spec_loss L), ?Q, ?Kf)"
    by blast
qed

lemma dot_sum:
  assumes "length a = c" and "length b = c"
  shows "dot a b = (\<Sum>d<c. a ! d * b ! d)"
proof -
  have "dot a b = (\<Sum>i = 0..<length (zip a b). map (\<lambda>(x, y). x * y) (zip a b) ! i)"
    by (simp add: dot_def sum_list_sum_nth)
  also have "\<dots> = (\<Sum>d<c. a ! d * b ! d)"
    using assms by (intro sum.cong) (auto simp: atLeast0LessThan)
  finally show ?thesis .
qed

lemma logits_entries:
  assumes q: "is_tensor n c q" and k: "is_tensor n c k" and x: "is_tensor c ncols x"
  shows "\<exists>L. MoCov1_logits T q k ncols x = Inr L \<and> is_tensor n (1 + ncols) L
           \<and> (\<forall>i<n. L ! i ! 0 = (\<Sum>d<c. q ! i ! d * k ! i ! d) / T
                   \<and> (\<forall>j<ncols. L ! i ! (1 + j) = (\<Sum>d<c. q ! i ! d * x ! d ! j) / T)
                   \<and> (q ! i = k ! i \<and> sqrt (\<Sum>d<c. (q ! i ! d)\<^sup>2) = 1 \<longrightarrow> L ! i ! 0 = 1 / T))"
proof -
  from logits_tensor [OF q k x, of T]
  obtain L where run: "MoCov1_logits T q k ncols x = Inr L"
    and t: "is_tensor n (1 + ncols) L"
    and pt: "\<forall>i<n. L ! i ! 0 = dot (q ! i) (k ! i) / T
                  \<and> (\<forall>j<ncols. L ! i ! (1 + j) = dot (q ! i) (col x j) / T)"
    by blast
  have lx: "length x = c"
    using x by (simp add: is_tensor_def)
  have ent: "L ! i ! 0 = (\<Sum>d<c. q ! i ! d * k ! i ! d) / T
            \<and> (\<forall>j<ncols. L ! i ! (1 + j) = (\<Sum>d<c. q ! i ! d * x ! d ! j) / T)
            \<and> (q ! i = k ! i \<and> sqrt (\<Sum>d<c. (q ! i ! d)\<^sup>2) = 1 \<longrightarrow> L ! i ! 0 = 1 / T)"
    if i: "i < n" for i
  proof -
    have lq: "length (q ! i) = c" and lk: "length (k ! i) = c"
      using is_tensor_row [OF q i] is_tensor_row [OF k i] by simp_all
    have pos: "L ! i ! 0 = (\<Sum>d<c. q ! i ! d * k ! i ! d) / T"
      using pt i by (simp add: dot_sum [OF lq lk])
    have neg: "L ! i ! (1 + j) = (\<Sum>d<c. q ! i ! d * x ! d ! j) / T" if "j < ncols" for j
    proof -
      have "dot (q ! i) (col x j) = (\<Sum>d<c. q ! i ! d * col x j ! d)"
        by (rule dot_sum [OF lq]) (simp add: length_col lx)
      also have "\<dots> = (\<Sum>d<c. q ! i ! d * x ! d ! j)"
        by (intro sum.cong) (simp_all add: col_nth lx)
      finally show ?thesis
        using pt i that by simp
    qed
    have unit: "L ! i ! 0 = 1 / T" if "q ! i = k ! i \<and> sqrt (\<Sum>d<c. (q ! i ! d)\<^sup>2) = 1"
    proof -
      have eqk: "k ! i = q ! i"
        using conjunct1 [OF that] by simp
      have "(\<Sum>d<c. (q ! i ! d)\<^sup>2) = 1"
        using conjunct2 [OF that] by simp
      moreover have "(\<Sum>d<c. q ! i ! d * k ! i ! d) = (\<Sum>d<c. (q ! i ! d)\<^sup>2)"
        by (simp only: eqk power2_eq_square)
      ultimately have "(\<Sum>d<c. q ! i ! d * k ! i ! d) = 1"
        by simp
      then show ?thesis
        using pos by simp
    qed
    from pos neg unit show ?thesis
      by blast
  qed
  from run t ent show ?thesis
    by blast
qed

text \<open>
  C5. For every query batch \<open>q\<close> and key batch \<open>k\<close> of shape \<open>(n, c)\<close> and every queue of
  shape \<open>(c, K)\<close>, with \<open>n > 0\<close> and \<open>T \<noteq> 0\<close>, in real arithmetic: the logits have shape
  \<open>(n, 1 + K)\<close>; row \<open>i\<close> starts with the sum over the coordinates \<open>d\<close> of
  \<open>q[i][d] * k[i][d]\<close> and continues, for every queue column \<open>j\<close>, with the sum of
  \<open>q[i][d] * queue[d][j]\<close>, each divided by \<open>T\<close>; when \<open>q[i] = k[i]\<close> has Euclidean norm 1
  the first entry is \<open>1 / T\<close>; and the cross-entropy taken on them has ground-truth
  class 0 in every row. \<^verbatim>\<open>contrastive_loss\<close>, on encoders that embed a batch of \<open>n\<close>
  images as an \<open>(n, c)\<close> tensor, returns normally with that loss for the logits of its
  query batch and its (shuffled, encoded, unshuffled) key batch, and with the two
  batches.
\<close>

theorem contrastive_loss_logits:
  assumes perm: "is_randperm (length im_k) idx_shuffle"
    and eq: "embeds c fwd_q" and ek: "embeds c fwd_k"
    and nq: "length im_q = n" and nk: "length im_k = n" and n: "0 < n"
    and x: "is_tensor c (self_K s) (queue s)" and T: "self_T s \<noteq> 0"
  shows "(\<forall>q k. is_tensor n c q \<and> is_tensor n c k \<longrightarrow>
            (\<exists>L. MoCov1_logits (self_T s) q k (self_K s) (queue s) = Inr L
                \<and> is_tensor n (1 + self_K s) L
                \<and> (\<forall>i<n. L ! i ! 0 = (\<Sum>d<c. q ! i ! d * k ! i ! d) / self_T s
                        \<and> (\<forall>j<self_K s.
                              L ! i ! (1 + j) = (\<Sum>d<c. q ! i ! d * queue s ! d ! j) / self_T s)
                        \<and> (q ! i = k ! i \<and> sqrt (\<Sum>d<c. (q ! i ! d)\<^sup>2) = 1 \<longrightarrow>
                              L ! i ! 0 = 1 / self_T s))
                \<and> cross_entropy L (replicate n 0) = Inr (Some (spec_loss L))))
       \<and> (\<exists>L. is_tensor n c (fwd_q (encoder_q s) im_q)
              \<and> is_tensor n c (key_features fwd_k idx_shuffle s im_k)
              \<and> MoCov1_logits (self_T s) (fwd_q (encoder_q s) im_q)
                   (key_features fwd_k idx_shuffle s im_k) (self_K s) (queue s) = Inr L
              \<and> is_tensor n (1 + self_K s) L
              \<and> (\<forall>i<n. L ! i ! 0
                         = (\<Sum>d<c. fwd_q (encoder_q s) im_q ! i ! d
                                    * key_features fwd_k idx_shuffle s im_k ! i ! d) / self_T s
                      \<and> (\<forall>j<self_K s.
                            L ! i ! (1 + j)
                              = (\<Sum>d<c. fwd_q (encoder_q s) im_q ! i ! d * queue s ! d ! j) / self_T s))
              \<and> MoCov1_contrastive_loss fwd_q fwd_k idx_shuffle s im_q im_k
                  = Inr (Some (spec_loss L), fwd_q (encoder_q s) im_q,
                         key_features fwd_k idx_shuffle s im_k))"
proof (intro conjI allI impI)
  fix q k :: "real list list"
  assume qk: "is_tensor n c q \<and> is_tensor n c k"
  from logits_entries [OF conjunct1 [OF qk] conjunct2 [OF qk] x, of "self_T s"]
  obtain L where run: "MoCov1_logits (self_T s) q k (self_K s) (queue s) = Inr L"
    and t: "is_tensor n (1 + self_K s) L"
    and pt: "\<forall>i<n. L ! i ! 0 = (\<Sum>d<c. q ! i ! d * k ! i ! d) / self_T s
                  \<and> (\<forall>j<self_K s.
                        L ! i ! (1 + j) = (\<Sum>d<c. q ! i ! d * queue s ! d ! j) / self_T s)
                  \<and> (q ! i = k ! i \<and> sqrt (\<Sum>d<c. (q ! i ! d)\<^sup>2) = 1 \<longrightarrow>
                        L ! i ! 0 = 1 / self_T s)"
    by blast
  from run t pt cross_entropy_label0 [OF t n]
  show "\<exists>L. MoCov1_logits (self_T s) q k (self_K s) (queue s) = Inr L
          \<and> is_tensor n (1 + self_K s) L
          \<and> (\<forall>i<n. L ! i ! 0 = (\<Sum>d<c. q ! i ! d * k ! i ! d) / self_T s
                  \<and> (\<forall>j<self_K s.
                        L ! i ! (1 + j) = (\<Sum>d<c. q ! i ! d * queue s ! d ! j) / self_T s)
                  \<and> (q ! i = k ! i \<and> sqrt (\<Sum>d<c. (q ! i ! d)\<^sup>2) = 1 \<longrightarrow>
                        L ! i ! 0 = 1 / self_T s))
          \<and> cross_entropy L (replicate n 0) = Inr (Some (spec_loss L))"
    by blast
next
  let ?Q = "fwd_q (encoder_q s) im_q"
  let ?Kf = "key_features fwd_k idx_shuffle s im_k"
  from contrastive_loss_run [OF perm eq ek nq nk n x T]
  obtain L where tq: "is_tensor n c ?Q" and tk: "is_tensor n c ?Kf"
    and run: "MoCov1_logits (self_T s) ?Q ?Kf (self_K s) (queue s) = Inr L"
    and cl: "MoCov1_contrastive_loss fwd_q fwd_k idx_shuffle s im_q im_k
             = Inr (Some (spec_loss L), ?Q, ?Kf)"
    by blast
  from logits_entries [OF tq tk x, of "self_T s"] run
  have "is_tensor n (1 + self_K s) L
        \<and> (\<forall>i<n. L ! i ! 0 = (\<Sum>d<c. ?Q ! i ! d * ?Kf ! i ! d) / self_T s
                \<and> (\<forall>j<self_K s.
                      L ! i ! (1 + j) = (\<Sum>d<c. ?Q ! i ! d * queue s ! d ! j) / self_T s))"
    by auto
  with tq tk run cl
  show "\<exists>L. is_tensor n c ?Q \<and> is_tensor n c ?Kf
          \<and> MoCov1_logits (self_T s) ?Q ?Kf (self_K s) (queue s) = Inr L
          \<and> is_tensor n (1 + self_K s) L
          \<and> (\<forall>i<n. L ! i ! 0 = (\<Sum>d<c. ?Q ! i ! d * ?Kf ! i ! d) / self_T s
                  \<and> (\<forall>j<self_K s.
                        L ! i ! (1 + j) = (\<Sum>d<c. ?Q ! i ! d * queue s ! d ! j) / self_T s))
          \<and> MoCov1_contrastive_loss fwd_q fwd_k idx_shuffle s im_q im_k
              = Inr (Some (spec_loss L), ?Q, ?Kf)"
    by blast
qed

lemma embeds_const_net: "embeds 2 (const_net :: real param list \<Rightarrow> 'i list \<Rightarrow> real list list)"
  by (simp add: embeds_def const_net_def is_tensor_def list_all_iff)

lemma randperm_single: "is_randperm (length [v]) [0]"
  by (simp add: is_randperm_def)

lemma key_features_const_net: "key_features const_net [0] s [v] = [[1, 0]]"
  by (simp add: key_features_def const_net_def argsort_def)

theorem contrastive_loss_logits_witness:
  "is_randperm (length [''b'']) [0]
   \<and> embeds 2 (const_net :: real param list \<Rightarrow> string list \<Rightarrow> real list list)
   \<and> is_tensor 2 (self_K demo) (queue demo)
   \<and> self_T demo \<noteq> 0
   \<and> is_tensor 1 2 [[1, 0 :: real]]
   \<and> sqrt (\<Sum>d<2. ([[1, 0 :: real]] ! 0 ! d)\<^sup>2) = 1
   \<and> (\<exists>L. MoCov1_logits (self_T demo) [[1, 0]] [[1, 0]] (self_K demo) (queue demo) = Inr L
          \<and> is_tensor 1 (1 + self_K demo) L
          \<and> L ! 0 ! 0 = 10
          \<and> L ! 0 ! 1 = 10
          \<and> L ! 0 ! 2 = 0
          \<and> cross_entropy L (replicate 1 0) = Inr (Some (spec_loss L)))
   \<and> (\<exists>L. MoCov1_contrastive_loss const_net const_net [0] demo [''a''] [''b'']
            = Inr (Some (spec_loss L), [[1, 0]], [[1, 0]]))"
proof -
  let ?net = "const_net :: real param list \<Rightarrow> string list \<Rightarrow> real list list"
  let ?q = "[[1, 0 :: real]]"
  have h1: "is_randperm (length [''b'']) [0]"
    by (rule randperm_single)
  have h2: "embeds 2 ?net"
    by (rule embeds_const_net)
  have h3: "is_tensor 2 (self_K demo) (queue demo)"
    by (simp add: demo_def is_tensor_def)
  have h4: "self_T demo \<noteq> 0"
    by (simp add: demo_def)
  have h5: "is_tensor 1 2 ?q"
    by (simp add: is_tensor_def)
  have two_set: "{..<2::nat} = {0, 1}"
    by auto
  have h6: "sqrt (\<Sum>d<2. (?q ! 0 ! d)\<^sup>2) = 1"
    by (simp add: two_set)
  have la: "length [''a''] = 1" and lb: "length [''b''] = 1" and n: "(0::nat) < 1"
    by simp_all
  note t = contrastive_loss_logits [OF h1 h2 h2 la lb n h3 h4]
  from conjunct1 [OF t, rule_format, OF conjI [OF h5 h5]]
  obtain L where run: "MoCov1_logits (self_T demo) ?q ?q (self_K demo) (queue demo) = Inr L"
    and rest: "is_tensor 1 (1 + self_K demo) L
       \<and> (\<forall>i<1. L ! i ! 0 = (\<Sum>d<2. ?q ! i ! d * ?q ! i ! d) / self_T demo
               \<and> (\<forall>j<self_K demo.
                     L ! i ! (1 + j) = (\<Sum>d<2. ?q ! i ! d * queue demo ! d ! j) / self_T demo)
               \<and> (?q ! i = ?q ! i \<and> sqrt (\<Sum>d<2. (?q ! i ! d)\<^sup>2) = 1 \<longrightarrow>
                     L ! i ! 0 = 1 / self_T demo))
       \<and> cross_entropy L (replicate 1 0) = Inr (Some (spec_loss L))"
    by (elim exE conjE) (rule that, assumption, intro conjI, assumption+)
  note sh = conjunct1 [OF rest]
  note pt = conjunct1 [OF conjunct2 [OF rest], rule_format, of 0]
  note ce = conjunct2 [OF conjunct2 [OF rest]]
  have i0: "(0::nat) < 1"
    by simp
  note pt0 = pt [OF i0]
  have "L ! 0 ! 0 = 1 / self_T demo"
    by (rule mp [OF conjunct2 [OF conjunct2 [OF pt0]] conjI [OF refl h6]])
  then have p0: "L ! 0 ! 0 = 10"
    by (simp add: demo_def)
  have j0: "0 < self_K demo" and j1: "1 < self_K demo"
    by (simp_all add: demo_def)
  have "L ! 0 ! (1 + 0) = (\<Sum>d<2. ?q ! 0 ! d * queue demo ! d ! 0) / self_T demo"
    by (rule conjunct1 [OF conjunct2 [OF pt0], rule_format, OF j0])
  then have p1: "L ! 0 ! 1 = 10"
    by (simp add: demo_def two_set)
  have "L ! 0 ! (1 + 1) = (\<Sum>d<2. ?q ! 0 ! d * queue demo ! d ! 1) / self_T demo"
    by (rule conjunct1 [OF conjunct2 [OF pt0], rule_format, OF j1])
  then have p2: "L ! 0 ! 2 = 0"
    by (simp add: demo_def two_set numeral_2_eq_2)
  have one: "\<exists>L. MoCov1_logits (self_T demo) ?q ?q (self_K demo) (queue demo) = Inr L
          \<and> is_tensor 1 (1 + self_K demo) L
          \<and> L ! 0 ! 0 = 10
          \<and> L ! 0 ! 1 = 10
          \<and> L ! 0 ! 2 = 0
          \<and> cross_entropy L (replicate 1 0) = Inr (Some (spec_loss L))"
    by (rule exI [of _ L]) (intro conjI run sh p0 p1 p2 ce)
  from conjunct2 [OF t]
  obtain L' where "MoCov1_contrastive_loss ?net ?net [0] demo [''a''] [''b'']
      = Inr (Some (spec_loss L'), ?net (encoder_q demo) [''a''], key_features ?net [0] demo [''b''])"
    by (elim exE conjE)
  moreover have "?net (encoder_q demo) [''a''] = [[1, 0]]"
    by (simp add: const_net_def)
  ultimately have "MoCov1_contrastive_loss ?net ?net [0] demo [''a''] [''b'']
      = Inr (Some (spec_loss L'), [[1, 0]], [[1, 0]])"
    by (simp only: key_features_const_net)
  then have two: "\<exists>L. MoCov1_contrastive_loss ?net ?net [0] demo [''a''] [''b'']
            = Inr (Some (spec_loss L), [[1, 0]], [[1, 0]])"
    by (rule exI)
  show ?thesis
    by (intro conjI h1 h2 h3 h4 h5 h6 one two)
qed

subsection \<open>C6: the training step\<close>

lemma cat_dim0_tensor:
  assumes "is_tensor n c a" and "is_tensor n' c b"
  shows "cat_dim0 a b = Inr (a @ b)" and "is_tensor (n + n') c (a @ b)"
proof -
  have all: "list_all (\<lambda>row. length row = c) (a @ b)"
    using assms by (simp add: is_tensor_def)
  show "is_tensor (n + n') c (a @ b)"
    using assms by (simp add: is_tensor_def)
  show "cat_dim0 a b = Inr (a @ b)"
  proof (cases "a @ b")
    case Nil
    then show ?thesis by (simp add: cat_dim0_def)
  next
    case (Cons r rest)
    then have "length r = c" using all by simp
    then show ?thesis using all Cons by (simp add: cat_dim0_def)
  qed
qed

text \<open>
  C6, as the code has it. A training step on two views of \<open>n > 0\<close> images each, with
  \<open>2n\<close> dividing the capacity and the \<open>2n\<close> keys fitting below the end of the queue
  (\<open>ptr + 2n \<le> K\<close>), on encoders that embed a batch of \<open>n\<close> images as an \<open>(n, c)\<close> tensor
  and with \<open>T \<noteq> 0\<close>, returns normally. It first applies the momentum update; on the
  updated model it computes the contrastive loss of view 1 as query against view 2 as
  key, then with the views swapped; it returns the sum of the two losses; and it
  leaves the model as one enqueue of the key batch of view 1 followed by the key batch
  of view 2 leaves it: these \<open>2n\<close> keys stand in the columns from the old pointer on and
  the pointer is \<open>(ptr + 2n) mod K\<close>.
\<close>

theorem forward_symmetric_step:
  assumes sh: "same_shapes (encoder_q s) (encoder_k s)"
    and p12: "is_randperm (length im2) idx_12" and p21: "is_randperm (length im1) idx_21"
    and eq: "embeds c fwd_q" and ek: "embeds c fwd_k"
    and n1: "length im1 = n" and n2: "length im2 = n" and n: "0 < n"
    and x: "is_tensor c (self_K s) (queue s)" and T: "self_T s \<noteq> 0"
    and dv: "2 * n dvd self_K s" and fit: "queue_ptr s + 2 * n \<le> self_K s"
  shows "\<exists>l12 l21 q1 k2 q2 k1 x'.
           MoCov1_momentum_update_key_encoder s = (Inr (), s\<lparr>encoder_k := key_momentum_rule s\<rparr>)
         \<and> MoCov1_contrastive_loss fwd_q fwd_k idx_12 (s\<lparr>encoder_k := key_momentum_rule s\<rparr>) im1 im2
             = Inr (Some l12, q1, k2)
         \<and> MoCov1_contrastive_loss fwd_q fwd_k idx_21 (s\<lparr>encoder_k := key_momentum_rule s\<rparr>) im2 im1
             = Inr (Some l21, q2, k1)
         \<and> is_tensor n c k1 \<and> is_tensor n c k2
         \<and> MoCov1_dequeue_and_enqueue (s\<lparr>encoder_k := key_momentum_rule s\<rparr>) (k1 @ k2)
             = (Inr (), s\<lparr>encoder_k := key_momentum_rule s, queue := x',
                          queue_ptr := (queue_ptr s + 2 * n) mod self_K s\<rparr>)
         \<and> (\<forall>j<self_K s.
               col x' j = (if queue_ptr s \<le> j \<and> j < queue_ptr s + 2 * n
                           then (k1 @ k2) ! (j - queue_ptr s) else col (queue s) j))
         \<and> MoCov1_forward fwd_q fwd_k idx_12 idx_21 s im1 im2
             = (Inr (Some (l12 + l21)),
                s\<lparr>encoder_k := key_momentum_rule s, queue := x',
                  queue_ptr := (queue_ptr s + 2 * n) mod self_K s\<rparr>)"
proof -
  let ?s1 = "s\<lparr>encoder_k := key_momentum_rule s\<rparr>"
  have mu: "MoCov1_momentum_update_key_encoder s = (Inr (), ?s1)"
    by (rule momentum_update_same_shapes [OF sh])
  have x1: "is_tensor c (self_K ?s1) (queue ?s1)" and T1: "self_T ?s1 \<noteq> 0"
    using x T by simp_all
  from contrastive_loss_run [OF p12 eq ek n1 n2 n x1 T1]
  obtain L12 where k2: "is_tensor n c (key_features fwd_k idx_12 ?s1 im2)"
    and c12: "MoCov1_contrastive_loss fwd_q fwd_k idx_12 ?s1 im1 im2
              = Inr (Some (spec_loss L12), fwd_q (encoder_q ?s1) im1, key_features fwd_k idx_12 ?s1 im2)"
    by blast
  from contrastive_loss_run [OF p21 eq ek n2 n1 n x1 T1]
  obtain L21 where k1: "is_tensor n c (key_features fwd_k idx_21 ?s1 im1)"
    and c21: "MoCov1_contrastive_loss fwd_q fwd_k idx_21 ?s1 im2 im1
              = Inr (Some (spec_loss L21), fwd_q (encoder_q ?s1) im2, key_features fwd_k idx_21 ?s1 im1)"
    by blast
  let ?k1 = "key_features fwd_k idx_21 ?s1 im1" and ?k2 = "key_features fwd_k idx_12 ?s1 im2"
  let ?x' = "written (queue s) (queue_ptr s) (?k1 @ ?k2)"
  let ?s2 = "s\<lparr>encoder_k := key_momentum_rule s, queue := ?x',
               queue_ptr := (queue_ptr s + 2 * n) mod self_K s\<rparr>"
  have cat: "cat_dim0 ?k1 ?k2 = Inr (?k1 @ ?k2)"
    by (rule cat_dim0_tensor(1) [OF k1 k2])
  have "is_tensor (n + n) c (?k1 @ ?k2)"
    by (rule cat_dim0_tensor(2) [OF k1 k2])
  then have kk: "is_tensor (2 * n) c (?k1 @ ?k2)"
    by (simp add: mult_2)
  have b: "0 < 2 * n"
    using n by simp
  have dv1: "2 * n dvd self_K ?s1" and fit1: "queue_ptr ?s1 + 2 * n \<le> self_K ?s1"
    using dv fit by simp_all
  have "MoCov1_dequeue_and_enqueue ?s1 (?k1 @ ?k2)
        = (Inr (), ?s1\<lparr>queue := written (queue ?s1) (queue_ptr ?s1) (?k1 @ ?k2),
                       queue_ptr := (queue_ptr ?s1 + 2 * n) mod self_K ?s1\<rparr>)"
    by (rule enqueue_fits [OF x1 kk b dv1 fit1])
  then have enq: "MoCov1_dequeue_and_enqueue ?s1 (?k1 @ ?k2) = (Inr (), ?s2)"
    by simp
  have cs: "\<forall>j<self_K s.
               col ?x' j = (if queue_ptr s \<le> j \<and> j < queue_ptr s + 2 * n
                            then (?k1 @ ?k2) ! (j - queue_ptr s) else col (queue s) j)"
    using col_written [OF x kk fit] by blast
  have fw: "MoCov1_forward fwd_q fwd_k idx_12 idx_21 s im1 im2
            = (Inr (Some (spec_loss L12 + spec_loss L21)), ?s2)"
    by (simp add: MoCov1_forward_def mu c12 c21 cat enq loss_add_def Let_def)
  from mu c12 c21 k1 k2 enq cs fw show ?thesis
    by blast
qed

theorem forward_symmetric_step_witness:
  "same_shapes (encoder_q demo) (encoder_k demo)
   \<and> is_randperm (length [''b'']) [0] \<and> is_randperm (length [''a'']) [0]
   \<and> embeds 2 (const_net :: real param list \<Rightarrow> string list \<Rightarrow> real list list)
   \<and> is_tensor 2 (self_K demo) (queue demo)
   \<and> self_T demo \<noteq> 0
   \<and> 2 * 1 dvd self_K demo
   \<and> queue_ptr demo + 2 * 1 \<le> self_K demo
   \<and> (\<exists>loss x'. MoCov1_forward const_net const_net [0] [0] demo [''a''] [''b'']
                   = (Inr (Some loss),
                      demo\<lparr>encoder_k := [\<lparr>data = [2, 4], requires_grad = False\<rparr>],
                           queue := x', queue_ptr := 2\<rparr>)
                \<and> col x' 0 = [1, 0] \<and> col x' 1 = [1, 0]
                \<and> col x' 2 = [1, 0] \<and> col x' 3 = [0, 1])"
proof -
  let ?net = "const_net :: real param list \<Rightarrow> string list \<Rightarrow> real list list"
  let ?s1 = "demo\<lparr>encoder_k := key_momentum_rule demo\<rparr>"
  have h1: "same_shapes (encoder_q demo) (encoder_k demo)"
    by (simp add: demo_def same_shapes_def)
  have h2: "is_randperm (length [''b'']) [0]" and h3: "is_randperm (length [''a'']) [0]"
    by (rule randperm_single)+
  have h4: "embeds 2 ?net"
    by (rule embeds_const_net)
  have la: "length [''a''] = 1" and lb: "length [''b''] = 1" and n: "(0::nat) < 1"
    by simp_all
  have h5: "is_tensor 2 (self_K demo) (queue demo)"
    by (simp add: demo_def is_tensor_def)
  have h6: "self_T demo \<noteq> 0"
    by (simp add: demo_def)
  have h7: "2 * 1 dvd self_K demo" and h8: "queue_ptr demo + 2 * 1 \<le> self_K demo"
    by (simp_all add: demo_def)
  from forward_symmetric_step [OF h1 h2 h3 h4 h4 la lb n h5 h6 h7 h8]
  obtain l12 l21 q1 k2 q2 k1 x' where
    c12: "MoCov1_contrastive_loss ?net ?net [0] ?s1 [''a''] [''b''] = Inr (Some l12, q1, k2)"
    and c21: "MoCov1_contrastive_loss ?net ?net [0] ?s1 [''b''] [''a''] = Inr (Some l21, q2, k1)"
    and cs: "\<forall>j<self_K demo.
               col x' j = (if queue_ptr demo \<le> j \<and> j < queue_ptr demo + 2 * 1
                           then (k1 @ k2) ! (j - queue_ptr demo) else col (queue demo) j)"
    and fw: "MoCov1_forward ?net ?net [0] [0] demo [''a''] [''b'']
             = (Inr (Some (l12 + l21)),
                demo\<lparr>encoder_k := key_momentum_rule demo, queue := x',
                     queue_ptr := (queue_ptr demo + 2 * 1) mod self_K demo\<rparr>)"
    by blast
  have x1: "is_tensor 2 (self_K ?s1) (queue ?s1)" and T1: "self_T ?s1 \<noteq> 0"
    using h5 h6 by simp_all
  from contrastive_loss_run [OF h2 h4 h4 la lb n x1 T1] c12
  have k2: "k2 = [[1, 0]]"
    by (auto simp: key_features_const_net)
  from contrastive_loss_run [OF h3 h4 h4 lb la n x1 T1] c21
  have k1: "k1 = [[1, 0]]"
    by (auto simp: key_features_const_net)
  have km: "key_momentum_rule demo = [\<lparr>data = [2, 4], requires_grad = False\<rparr>]"
    by (simp add: key_momentum_rule_def demo_def ema_def)
  have fw': "MoCov1_forward ?net ?net [0] [0] demo [''a''] [''b'']
             = (Inr (Some (l12 + l21)),
                demo\<lparr>encoder_k := [\<lparr>data = [2, 4], requires_grad = False\<rparr>], queue := x',
                     queue_ptr := 2\<rparr>)"
    using fw by (simp add: km) (simp add: demo_def)
  have c0: "col x' 0 = [1, 0]" using cs [rule_format, of 0] by (simp add: demo_def k1 k2)
  have c1: "col x' 1 = [1, 0]" using cs [rule_format, of 1] by (simp add: demo_def k1 k2)
  have c2: "col x' 2 = [1, 0]" using cs [rule_format, of 2] by (simp add: demo_def k1 k2 col_def)
  have c3: "col x' 3 = [0, 1]" using cs [rule_format, of 3] by (simp add: demo_def k1 k2 col_def)
  from fw' c0 c1 c2 c3
  have "\<exists>loss x'. MoCov1_forward ?net ?net [0] [0] demo [''a''] [''b'']
                   = (Inr (Some loss),
                      demo\<lparr>encoder_k := [\<lparr>data = [2, 4], requires_grad = False\<rparr>],
                           queue := x', queue_ptr := 2\<rparr>)
                \<and> col x' 0 = [1, 0] \<and> col x' 1 = [1, 0]
                \<and> col x' 2 = [1, 0] \<and> col x' 3 = [0, 1]"
    by blast
  with h1 h2 h3 h4 h5 h6 h7 h8 show ?thesis
    by blast
qed

text \<open>
  C6 as stated fails for a step that cannot enqueue. With three images per view on a
  queue of capacity 4 (6 does not divide 4) the step raises AssertionError: no loss is
  returned, nothing is enqueued and the pointer stays at 0. With two images per view
  after a step of one image per view (4 divides 4, but the pointer is at 2) the step
  raises RuntimeError: again no loss, and the pointer stays at 2. In both cases the
  momentum update has already been applied.
\<close>

theorem forward_symmetric_step_counterexample:
  "MoCov1_forward const_net const_net [0, 1, 2] [0, 1, 2] demo
       [''a1'', ''a2'', ''a3''] [''b1'', ''b2'', ''b3'']
     = (Inl AssertionError, demo\<lparr>encoder_k := [\<lparr>data = [2, 4], requires_grad = False\<rparr>]\<rparr>)
   \<and> snd (MoCov1_forward const_net const_net [0] [0] demo [''a''] [''b'']) = stepped
   \<and> 2 * length [''a1'', ''a2''] dvd self_K stepped
   \<and> MoCov1_forward const_net const_net [0, 1] [0, 1] stepped [''a1'', ''a2''] [''b1'', ''b2'']
     = (Inl RuntimeError, stepped\<lparr>encoder_k := [\<lparr>data = [3 / 2, 7 / 2], requires_grad = False\<rparr>]\<rparr>)"
proof -
  let ?net = "const_net :: real param list \<Rightarrow> string list \<Rightarrow> real list list"
  let ?s1 = "demo\<lparr>encoder_k := [\<lparr>data = [2, 4], requires_grad = False\<rparr>]\<rparr>"
  let ?s2 = "stepped\<lparr>encoder_k := [\<lparr>data = [3 / 2, 7 / 2], requires_grad = False\<rparr>]\<rparr>"
  have emb: "embeds 2 ?net"
    by (rule embeds_const_net)
  have m1: "MoCov1_momentum_update_key_encoder demo = (Inr (), ?s1)"
    by (simp add: MoCov1_momentum_update_key_encoder_def demo_def tensor_add_def tensor_mul_def)
  have m2: "MoCov1_momentum_update_key_encoder stepped = (Inr (), ?s2)"
    by (simp add: MoCov1_momentum_update_key_encoder_def stepped_def demo_def tensor_add_def
        tensor_mul_def)
  have x1: "is_tensor 2 (self_K ?s1) (queue ?s1)" and T1: "self_T ?s1 \<noteq> 0"
    by (simp_all add: demo_def is_tensor_def)
  have x2: "is_tensor 2 (self_K ?s2) (queue ?s2)" and T2: "self_T ?s2 \<noteq> 0"
    by (simp_all add: stepped_def demo_def is_tensor_def)
  have u2: "[0..<2] = [0, 1]" and u3: "[0..<3] = [0, 1, 2]"
    by (simp_all add: upt_rec)
  have p1: "is_randperm (length [u]) [0]" for u :: string
    by (rule randperm_single)
  have p2: "is_randperm (length [u, v]) [0, 1]" for u v :: string
    by (simp add: is_randperm_def u2)
  have p3: "is_randperm (length [u, v, w]) [0, 1, 2]" for u v w :: string
    by (simp add: is_randperm_def u3)
  have k2: "key_features ?net [0, 1] s [u, v] = [[1, 0], [1, 0]]" for s u v
    by (simp add: key_features_def const_net_def argsort_def u2)
  have k3: "key_features ?net [0, 1, 2] s [u, v, w] = [[1, 0], [1, 0], [1, 0]]" for s u v w
    by (simp add: key_features_def const_net_def argsort_def u3)
  have n1: "(0::nat) < 1" and n2: "(0::nat) < 2" and n3: "(0::nat) < 3"
    by simp_all
  have l1: "length [u] = 1" and l2: "length [u, v] = 2" and l3: "length [u, v, w] = 3"
    for u v w :: string
    by simp_all
  have c3: "\<exists>loss. MoCov1_contrastive_loss ?net ?net [0, 1, 2] ?s1 [u, v, w] [u', v', w']
                   = Inr (loss, [[1, 0], [1, 0], [1, 0]], [[1, 0], [1, 0], [1, 0]])"
    for u v w u' v' w'
  proof -
    from contrastive_loss_run [OF p3 [of u' v' w'] emb emb l3 [of u v w] l3 [of u' v' w'] n3 x1 T1]
    obtain L where "MoCov1_contrastive_loss ?net ?net [0, 1, 2] ?s1 [u, v, w] [u', v', w']
        = Inr (Some (spec_loss L), ?net (encoder_q ?s1) [u, v, w],
               key_features ?net [0, 1, 2] ?s1 [u', v', w'])"
      by (elim exE conjE)
    moreover have "?net (encoder_q ?s1) [u, v, w] = [[1, 0], [1, 0], [1, 0]]"
      by (simp add: const_net_def)
    ultimately have "MoCov1_contrastive_loss ?net ?net [0, 1, 2] ?s1 [u, v, w] [u', v', w']
        = Inr (Some (spec_loss L), [[1, 0], [1, 0], [1, 0]], [[1, 0], [1, 0], [1, 0]])"
      by (simp only: k3)
    then show ?thesis
      by (rule exI)
  qed
  have c1: "\<exists>loss. MoCov1_contrastive_loss ?net ?net [0] ?s1 [u] [u']
                   = Inr (loss, [[1, 0]], [[1, 0]])"
    for u u'
  proof -
    from contrastive_loss_run [OF p1 [of u'] emb emb l1 [of u] l1 [of u'] n1 x1 T1]
    obtain L where "MoCov1_contrastive_loss ?net ?net [0] ?s1 [u] [u']
        = Inr (Some (spec_loss L), ?net (encoder_q ?s1) [u], key_features ?net [0] ?s1 [u'])"
      by (elim exE conjE)
    moreover have "?net (encoder_q ?s1) [u] = [[1, 0]]"
      by (simp add: const_net_def)
    ultimately have "MoCov1_contrastive_loss ?net ?net [0] ?s1 [u] [u']
        = Inr (Some (spec_loss L), [[1, 0]], [[1, 0]])"
      by (simp only: key_features_const_net)
    then show ?thesis
      by (rule exI)
  qed
  have c2: "\<exists>loss. MoCov1_contrastive_loss ?net ?net [0, 1] ?s2 [u, v] [u', v']
                   = Inr (loss, [[1, 0], [1, 0]], [[1, 0], [1, 0]])"
    for u v u' v'
  proof -
    from contrastive_loss_run [OF p2 [of u' v'] emb emb l2 [of u v] l2 [of u' v'] n2 x2 T2]
    obtain L where "MoCov1_contrastive_loss ?net ?net [0, 1] ?s2 [u, v] [u', v']
        = Inr (Some (spec_loss L), ?net (encoder_q ?s2) [u, v],
               key_features ?net [0, 1] ?s2 [u', v'])"
      by (elim exE conjE)
    moreover have "?net (encoder_q ?s2) [u, v] = [[1, 0], [1, 0]]"
      by (simp add: const_net_def)
    ultimately have "MoCov1_contrastive_loss ?net ?net [0, 1] ?s2 [u, v] [u', v']
        = Inr (Some (spec_loss L), [[1, 0], [1, 0]], [[1, 0], [1, 0]])"
      by (simp only: k2)
    then show ?thesis
      by (rule exI)
  qed
  have e3: "MoCov1_dequeue_and_enqueue ?s1 [[1, 0], [1, 0], [1, 0], [1, 0], [1, 0], [1, 0]]
            = (Inl AssertionError, ?s1)"
    by code_simp
  have e1: "MoCov1_dequeue_and_enqueue ?s1 [[1, 0], [1, 0]] = (Inr (), stepped)"
    by code_simp
  have e2: "MoCov1_dequeue_and_enqueue ?s2 [[1, 0], [1, 0], [1, 0], [1, 0]]
            = (Inl RuntimeError, ?s2)"
    by code_simp
  from c3 obtain a12 where a12: "MoCov1_contrastive_loss ?net ?net [0, 1, 2] ?s1
      [''a1'', ''a2'', ''a3''] [''b1'', ''b2'', ''b3'']
      = Inr (a12, [[1, 0], [1, 0], [1, 0]], [[1, 0], [1, 0], [1, 0]])"
    by blast
  from c3 obtain a21 where a21: "MoCov1_contrastive_loss ?net ?net [0, 1, 2] ?s1
      [''b1'', ''b2'', ''b3''] [''a1'', ''a2'', ''a3'']
      = Inr (a21, [[1, 0], [1, 0], [1, 0]], [[1, 0], [1, 0], [1, 0]])"
    by blast
  have A: "MoCov1_forward ?net ?net [0, 1, 2] [0, 1, 2] demo
       [''a1'', ''a2'', ''a3''] [''b1'', ''b2'', ''b3''] = (Inl AssertionError, ?s1)"
    by (simp add: MoCov1_forward_def m1 a12 a21 cat_dim0_def e3 del: One_nat_def)
  from c1 obtain b12 where b12: "MoCov1_contrastive_loss ?net ?net [0] ?s1 [''a''] [''b'']
      = Inr (b12, [[1, 0]], [[1, 0]])"
    by blast
  from c1 obtain b21 where b21: "MoCov1_contrastive_loss ?net ?net [0] ?s1 [''b''] [''a'']
      = Inr (b21, [[1, 0]], [[1, 0]])"
    by blast
  have B: "snd (MoCov1_forward ?net ?net [0] [0] demo [''a''] [''b'']) = stepped"
    by (simp add: MoCov1_forward_def m1 b12 b21 cat_dim0_def e1 del: One_nat_def)
  have C: "2 * length [''a1'', ''a2''] dvd self_K stepped"
    by (simp add: stepped_def demo_def)
  from c2 obtain d12 where d12: "MoCov1_contrastive_loss ?net ?net [0, 1] ?s2
      [''a1'', ''a2''] [''b1'', ''b2''] = Inr (d12, [[1, 0], [1, 0]], [[1, 0], [1, 0]])"
    by blast
  from c2 obtain d21 where d21: "MoCov1_contrastive_loss ?net ?net [0, 1] ?s2
      [''b1'', ''b2''] [''a1'', ''a2''] = Inr (d21, [[1, 0], [1, 0]], [[1, 0], [1, 0]])"
    by blast
  have D: "MoCov1_forward ?net ?net [0, 1] [0, 1] stepped [''a1'', ''a2''] [''b1'', ''b2'']
           = (Inl RuntimeError, ?s2)"
    by (simp add: MoCov1_forward_def m2 d12 d21 cat_dim0_def e2 del: One_nat_def)
  show ?thesis
    by (intro conjI A B C D)
qed

subsection \<open>C8: the head of the evaluation network\<close>

text \<open>
  C8. Constructing \<^verbatim>\<open>Net\<close> with the tag mocov1, mocov2, simclrv1 or simclrv2 attaches a
  linear head of 512, 512, 2048 or 1024 input features (and \<open>num_class\<close> outputs): the
  constructor returns that network when reading the checkpoint raises nothing, and
  otherwise raises what the reading raised. With any other tag the constructor raises
  AssertionError, before it touches the checkpoint, and returns no network.
\<close>

theorem Net_init_head:
  "Net_init ''mocov1'' num_class None
     = Inr \<lparr>net_f = MoCov1_encoder_q_f, fc_in_features = 512, fc_out_features = num_class\<rparr>
   \<and> Net_init ''mocov2'' num_class None
     = Inr \<lparr>net_f = MoCov2_encoder_q_f, fc_in_features = 512, fc_out_features = num_class\<rparr>
   \<and> Net_init ''simclrv1'' num_class None
     = Inr \<lparr>net_f = SimCLRv1_f, fc_in_features = 2048, fc_out_features = num_class\<rparr>
   \<and> Net_init ''simclrv2'' num_class None
     = Inr \<lparr>net_f = SimCLRv2_f_g1, fc_in_features = 1024, fc_out_features = num_class\<rparr>
   \<and> (model_name \<in> {''mocov1'', ''mocov2'', ''simclrv1'', ''simclrv2''} \<longrightarrow>
        Net_init model_name num_class (Some e) = Inl e)
   \<and> (model_name \<notin> {''mocov1'', ''mocov2'', ''simclrv1'', ''simclrv2''} \<longrightarrow>
        Net_init model_name num_class load = Inl AssertionError)
   \<and> (Net_init model_name num_class load = Inr self \<longrightarrow>
        load = None
        \<and> fc_out_features self = num_class
        \<and> (model_name = ''mocov1'' \<and> fc_in_features self = 512
           \<or> model_name = ''mocov2'' \<and> fc_in_features self = 512
           \<or> model_name = ''simclrv1'' \<and> fc_in_features self = 2048
           \<or> model_name = ''simclrv2'' \<and> fc_in_features self = 1024))"
proof (intro conjI impI)
  show "Net_init ''mocov1'' num_class None
     = Inr \<lparr>net_f = MoCov1_encoder_q_f, fc_in_features = 512, fc_out_features = num_class\<rparr>"
    by (simp add: Net_init_def)
  show "Net_init ''mocov2'' num_class None
     = Inr \<lparr>net_f = MoCov2_encoder_q_f, fc_in_features = 512, fc_out_features = num_class\<rparr>"
    by (simp add: Net_init_def)
  show "Net_init ''simclrv1'' num_class None
     = Inr \<lparr>net_f = SimCLRv1_f, fc_in_features = 2048, fc_out_features = num_class\<rparr>"
    by (simp add: Net_init_def)
  show "Net_init ''simclrv2'' num_class None
     = Inr \<lparr>net_f = SimCLRv2_f_g1, fc_in_features = 1024, fc_out_features = num_class\<rparr>"
    by (simp add: Net_init_def)
next
  assume "model_name \<in> {''mocov1'', ''mocov2'', ''simclrv1'', ''simclrv2''}"
  then consider "model_name = ''mocov1''" | "model_name = ''mocov2''"
    | "model_name = ''simclrv1''" | "model_name = ''simclrv2''"
    by blast
  then show "Net_init model_name num_class (Some e) = Inl e"
    by cases (simp_all add: Net_init_def)
next
  assume "model_name \<notin> {''mocov1'', ''mocov2'', ''simclrv1'', ''simclrv2''}"
  then have "model_name \<noteq> ''mocov1''" "model_name \<noteq> ''mocov2''"
    "model_name \<noteq> ''simclrv1''" "model_name \<noteq> ''simclrv2''"
    by blast+
  then show "Net_init model_name num_class load = Inl AssertionError"
    by (simp add: Net_init_def)
next
  assume r: "Net_init model_name num_class load = Inr self"
  show "load = None"
  proof (cases load)
    case None
    then show ?thesis .
  next
    case (Some e')
    then have "\<exists>e''. Net_init model_name num_class load = Inl e''"
      by (simp add: Net_init_def)
    with r show ?thesis by simp
  qed
  then have load: "load = None" .
  consider "model_name = ''mocov1''" | "model_name = ''mocov2''"
    | "model_name = ''simclrv1''" | "model_name = ''simclrv2''"
    | "model_name \<noteq> ''mocov1''" "model_name \<noteq> ''mocov2''"
      "model_name \<noteq> ''simclrv1''" "model_name \<noteq> ''simclrv2''"
    by blast
  then have "fc_out_features self = num_class
        \<and> (model_name = ''mocov1'' \<and> fc_in_features self = 512
           \<or> model_name = ''mocov2'' \<and> fc_in_features self = 512
           \<or> model_name = ''simclrv1'' \<and> fc_in_features self = 2048
           \<or> model_name = ''simclrv2'' \<and> fc_in_features self = 1024)"
  proof cases
    case 1
    with r load have "self = \<lparr>net_f = MoCov1_encoder_q_f, fc_in_features = 512, fc_out_features = num_class\<rparr>"
      by (simp add: Net_init_def)
    with 1 show ?thesis by simp
  next
    case 2
    with r load have "self = \<lparr>net_f = MoCov2_encoder_q_f, fc_in_features = 512, fc_out_features = num_class\<rparr>"
      by (simp add: Net_init_def)
    with 2 show ?thesis by simp
  next
    case 3
    with r load have "self = \<lparr>net_f = SimCLRv1_f, fc_in_features = 2048, fc_out_features = num_class\<rparr>"
      by (simp add: Net_init_def)
    with 3 show ?thesis by simp
  next
    case 4
    with r load have "self = \<lparr>net_f = SimCLRv2_f_g1, fc_in_features = 1024, fc_out_features = num_class\<rparr>"
      by (simp add: Net_init_def)
    with 4 show ?thesis by simp
  next
    case 5
    with r show ?thesis by (simp add: Net_init_def)
  qed
  then show "fc_out_features self = num_class"
    and "model_name = ''mocov1'' \<and> fc_in_features self = 512
           \<or> model_name = ''mocov2'' \<and> fc_in_features self = 512
           \<or> model_name = ''simclrv1'' \<and> fc_in_features self = 2048
           \<or> model_name = ''simclrv2'' \<and> fc_in_features self = 1024"
    by blast+
qed

theorem Net_init_head_witness:
  "''mocov2'' \<in> {''mocov1'', ''mocov2'', ''simclrv1'', ''simclrv2''}
   \<and> Net_init ''mocov2'' 10 (Some FileNotFoundError) = Inl FileNotFoundError
   \<and> ''resnet'' \<notin> {''mocov1'', ''mocov2'', ''simclrv1'', ''simclrv2''}
   \<and> Net_init ''resnet'' 10 None = Inl AssertionError
   \<and> Net_init ''simclrv2'' 10 None
       = Inr \<lparr>net_f = SimCLRv2_f_g1, fc_in_features = 1024, fc_out_features = 10\<rparr>
   \<and> fc_in_features \<lparr>net_f = SimCLRv2_f_g1, fc_in_features = 1024, fc_out_features = 10\<rparr> = 1024"
proof -
  have a: "''mocov2'' \<in> {''mocov1'', ''mocov2'', ''simclrv1'', ''simclrv2''}"
    by simp
  have b: "''resnet'' \<notin> {''mocov1'', ''mocov2'', ''simclrv1'', ''simclrv2''}"
    by simp
  note t = Net_init_head [of 10 "''mocov2''" FileNotFoundError None]
  note u = Net_init_head [of 10 "''resnet''" FileNotFoundError None]
  note t4 = t [THEN conjunct2, THEN conjunct2, THEN conjunct2]
  note u4 = u [THEN conjunct2, THEN conjunct2, THEN conjunct2]
  have 1: "Net_init ''mocov2'' 10 (Some FileNotFoundError) = Inl FileNotFoundError"
    by (rule mp [OF t4 [THEN conjunct2, THEN conjunct1] a])
  have 2: "Net_init ''resnet'' 10 None = Inl AssertionError"
    by (rule mp [OF u4 [THEN conjunct2, THEN conjunct2, THEN conjunct1] b])
  have 3: "Net_init ''simclrv2'' 10 None
       = Inr \<lparr>net_f = SimCLRv2_f_g1, fc_in_features = 1024, fc_out_features = 10\<rparr>"
    by (rule t4 [THEN conjunct1])
  from a b 1 2 3 show ?thesis
    by simp
qed

subsection \<open>C9: the call of \<open>train_val\<close> with a scheduler\<close>

text \<open>
  C9 on the code: \<^verbatim>\<open>train_val\<close> has three parameters and none for a scheduler, so the
  call of line 124, \<^verbatim>\<open>train_val(model, train_loader, optimizer, scheduler)\<close>, raises
  TypeError before the body runs, whatever the four objects are, and with it the first
  pass through the loop of the script. The call of line 128, with three arguments,
  reaches the body.
\<close>

theorem train_val_scheduler_call:
  "call_train_val net_fwd loss_criterion opt_step
     [Model model, DataLoader train_loader, Optimizer optimizer, StepLR scheduler] = Inl TypeError
   \<and> main_epoch net_fwd loss_criterion opt_step model train_loader test_loader optimizer scheduler
       = Inl TypeError
   \<and> call_train_val net_fwd loss_criterion opt_step
        [Model model, DataLoader test_loader, PyNone :: ('n, 'x, 'o, 'sch) pyobj]
       = train_val net_fwd loss_criterion opt_step model test_loader None"
  by (simp add: main_epoch_def call_train_val_def train_val_parameters_def)

subsection \<open>C10: the two MoCo classes\<close>

lemma MoCov2_momentum_loop_eq: "MoCov2_momentum_loop mm qs ks = momentum_loop mm qs ks"
  by (induction mm qs ks rule: momentum_loop.induct) (simp_all split: sum.splits)

lemma MoCov2_init_loop_eq: "MoCov2_init_loop qs ks = init_loop qs ks"
  by (induction qs ks rule: init_loop.induct) simp_all

lemma MoCov2_dequeue_and_enqueue_eq: "MoCov2_dequeue_and_enqueue = MoCov1_dequeue_and_enqueue"
  unfolding MoCov2_dequeue_and_enqueue_def MoCov1_dequeue_and_enqueue_def
  by (rule refl)

lemma MoCov2_momentum_update_eq:
  "MoCov2_momentum_update_key_encoder = MoCov1_momentum_update_key_encoder"
  unfolding MoCov2_momentum_update_key_encoder_def MoCov1_momentum_update_key_encoder_def
    MoCov2_momentum_loop_eq
  by (rule refl)

lemma MoCov2_shuffle_eq: "MoCov2_batch_shuffle_single_gpu = MoCov1_batch_shuffle_single_gpu"
  unfolding MoCov2_batch_shuffle_single_gpu_def MoCov1_batch_shuffle_single_gpu_def
  by (rule refl)

lemma MoCov2_unshuffle_eq: "MoCov2_batch_unshuffle_single_gpu = MoCov1_batch_unshuffle_single_gpu"
  unfolding MoCov2_batch_unshuffle_single_gpu_def MoCov1_batch_unshuffle_single_gpu_def
  by (rule refl)

lemma MoCov2_logits_eq: "MoCov2_logits = MoCov1_logits"
  unfolding MoCov2_logits_def MoCov1_logits_def
  by (rule refl)

lemma MoCov2_contrastive_loss_eq: "MoCov2_contrastive_loss = MoCov1_contrastive_loss"
  unfolding MoCov2_contrastive_loss_def MoCov1_contrastive_loss_def MoCov2_shuffle_eq
    MoCov2_unshuffle_eq MoCov2_logits_eq
  by (rule refl)

lemma MoCov2_forward_eq: "MoCov2_forward = MoCov1_forward"
  unfolding MoCov2_forward_def MoCov1_forward_def MoCov2_momentum_update_eq
    MoCov2_contrastive_loss_eq MoCov2_dequeue_and_enqueue_eq
  by (rule refl)

lemma MoCov2_init_eq: "MoCov2_init = MoCov1_init"
  unfolding MoCov2_init_def MoCov1_init_def MoCov2_init_loop_eq
  by (rule refl)

text \<open>
  C10. The methods of \<^verbatim>\<open>MoCov2\<close> are the methods of \<^verbatim>\<open>MoCov1\<close>: construction, momentum
  update, enqueue, batch shuffle and unshuffle, contrastive loss and training step are
  equal as functions of the hyperparameters, the object, the inputs, the random draws
  and the forward passes of the encoders. The two classes differ in the encoders
  alone.
\<close>

theorem MoCov2_is_MoCov1:
  "(MoCov2_init :: nat \<Rightarrow> real \<Rightarrow> real \<Rightarrow> real param list \<Rightarrow> real param list \<Rightarrow> real list list
       \<Rightarrow> error + real moco) = MoCov1_init
   \<and> (MoCov2_momentum_update_key_encoder :: real moco \<Rightarrow> (unit, real moco) res)
       = MoCov1_momentum_update_key_encoder
   \<and> (MoCov2_dequeue_and_enqueue :: real moco \<Rightarrow> real list list \<Rightarrow> (unit, real moco) res)
       = MoCov1_dequeue_and_enqueue
   \<and> (MoCov2_batch_shuffle_single_gpu :: nat list \<Rightarrow> 'i list \<Rightarrow> error + ('i list \<times> nat list))
       = MoCov1_batch_shuffle_single_gpu
   \<and> (MoCov2_batch_unshuffle_single_gpu :: real list list \<Rightarrow> nat list \<Rightarrow> error + real list list)
       = MoCov1_batch_unshuffle_single_gpu
   \<and> (MoCov2_contrastive_loss ::
        (real param list \<Rightarrow> 'i list \<Rightarrow> real list list) \<Rightarrow> (real param list \<Rightarrow> 'i list \<Rightarrow> real list list) \<Rightarrow>
        nat list \<Rightarrow> real moco \<Rightarrow> 'i list \<Rightarrow> 'i list \<Rightarrow>
        error + (real option \<times> real list list \<times> real list list))
       = MoCov1_contrastive_loss
   \<and> (MoCov2_forward ::
        (real param list \<Rightarrow> 'i list \<Rightarrow> real list list) \<Rightarrow> (real param list \<Rightarrow> 'i list \<Rightarrow> real list list) \<Rightarrow>
        nat list \<Rightarrow> nat list \<Rightarrow> real moco \<Rightarrow> 'i list \<Rightarrow> 'i list \<Rightarrow> (real option, real moco) res)
       = MoCov1_forward"
  by (simp only: MoCov2_init_eq MoCov2_momentum_update_eq MoCov2_dequeue_and_enqueue_eq
      MoCov2_shuffle_eq MoCov2_unshuffle_eq MoCov2_contrastive_loss_eq MoCov2_forward_eq
      simp_thms)

theorem MoCov2_is_MoCov1_witness:
  "MoCov2_forward const_net const_net [0] [0] demo [''a''] [''b'']
     = MoCov1_forward const_net const_net [0] [0] demo [''a''] [''b'']
   \<and> MoCov2_dequeue_and_enqueue demo [[5, 6], [7, 8]]
     = (Inr (), demo\<lparr>queue := [[5, 7, 1, 0], [6, 8, 0, 1]], queue_ptr := 2\<rparr>)"
proof -
  note t = MoCov2_is_MoCov1 [where ?'i = string]
  have f: "(MoCov2_forward ::
        (real param list \<Rightarrow> string list \<Rightarrow> real list list) \<Rightarrow> (real param list \<Rightarrow> string list \<Rightarrow> real list list) \<Rightarrow>
        nat list \<Rightarrow> nat list \<Rightarrow> real moco \<Rightarrow> string list \<Rightarrow> string list \<Rightarrow> (real option, real moco) res)
       = MoCov1_forward"
    and e: "(MoCov2_dequeue_and_enqueue :: real moco \<Rightarrow> real list list \<Rightarrow> (unit, real moco) res)
       = MoCov1_dequeue_and_enqueue"
    using t by blast+
  have "MoCov1_dequeue_and_enqueue demo [[5, 6], [7, 8]]
     = (Inr (), demo\<lparr>queue := [[5, 7, 1, 0], [6, 8, 0, 1]], queue_ptr := 2\<rparr>)"
    by code_simp
  then show ?thesis
    by (simp only: f e simp_thms)
qed

end
